theory Spec2Isabelle
  imports Complex_Main
begin

section \<open>Player state reducer (MusicPlayerContext)\<close>

subsection \<open>Data model\<close>

text \<open>
  A \<open>Song\<close> object of the source. The reducer compares songs in two ways: by object
  identity (\<open>history.includes(currentSong)\<close>) and by their \<open>id\<close> field
  (\<open>song.id === previousSong.id\<close>). The first component is the identity of the object,
  the second its \<open>id\<close> field, so that HOL equality of two songs is identity of the objects.
\<close>

datatype song = Song (obj: nat) (sid: string)

datatype repeat_mode = RepeatNone | RepeatOne | RepeatAll

text \<open>
  The value held by \<open>currentIndex\<close>. It is declared \<open>number\<close>, but the shuffle branch of
  \<open>NEXT_SONG\<close> can store \<open>undefined\<close> in it (an out-of-range array read), and arithmetic
  on \<open>undefined\<close> yields \<open>NaN\<close>. Integers are unbounded here (indices stay far below 2^53).
\<close>

datatype js_index = Idx int | Undefined | NaN

record MusicPlayerState =
  currentSong :: "song option"
  playlist :: "song list"
  currentIndex :: js_index
  isPlaying :: bool
  queue :: "song list"
  history :: "song list"
  repeat :: repeat_mode
  shuffle :: bool

datatype MusicPlayerAction =
    SET_CURRENT_SONG song "song list option" "int option"
  | SET_PLAYLIST "song list" "int option"
  | NEXT_SONG
  | PREVIOUS_SONG
  | SET_PLAYING bool
  | ADD_TO_QUEUE song
  | REMOVE_FROM_QUEUE int
  | CLEAR_QUEUE
  | SET_REPEAT repeat_mode
  | TOGGLE_SHUFFLE
  | CLEAR_PLAYER

definition initialState :: MusicPlayerState where
  "initialState =
     \<lparr> currentSong = None, playlist = [], currentIndex = Idx (- 1), isPlaying = False,
       queue = [], history = [], repeat = RepeatNone, shuffle = False \<rparr>"

subsection \<open>Array and number primitives of the host language\<close>

text \<open>\<open>xs[i]\<close> for an integer \<open>i\<close>: \<open>undefined\<close> (here \<open>None\<close>) outside the array.\<close>

definition js_nth :: "'a list \<Rightarrow> int \<Rightarrow> 'a option" where
  "js_nth xs i = (if 0 \<le> i \<and> i < int (length xs) then Some (xs ! nat i) else None)"

text \<open>\<open>xs[i]\<close> for the value of \<open>currentIndex\<close>: \<open>xs[undefined]\<close> and \<open>xs[NaN]\<close> read a
  property that no array has.\<close>

fun js_at :: "'a list \<Rightarrow> js_index \<Rightarrow> 'a option" where
  "js_at xs (Idx i) = js_nth xs i"
| "js_at xs Undefined = None"
| "js_at xs NaN = None"

text \<open>\<open>i + 1\<close> and \<open>i - 1\<close>: \<open>undefined \<plusminus> 1\<close> and \<open>NaN \<plusminus> 1\<close> are \<open>NaN\<close>.\<close>

fun js_add :: "js_index \<Rightarrow> int \<Rightarrow> js_index" where
  "js_add (Idx i) k = Idx (i + k)"
| "js_add Undefined k = NaN"
| "js_add NaN k = NaN"

text \<open>\<open>i >= n\<close> and \<open>i < n\<close>: every comparison with \<open>NaN\<close> is false.\<close>

fun js_ge :: "js_index \<Rightarrow> int \<Rightarrow> bool" where
  "js_ge (Idx i) n = (n \<le> i)"
| "js_ge Undefined n = False"
| "js_ge NaN n = False"

fun js_lt :: "js_index \<Rightarrow> int \<Rightarrow> bool" where
  "js_lt (Idx i) n = (i < n)"
| "js_lt Undefined n = False"
| "js_lt NaN n = False"

text \<open>\<open>i !== c\<close> for an array position \<open>i\<close>: a number differs from \<open>undefined\<close> and from
  \<open>NaN\<close>.\<close>

fun js_neq :: "nat \<Rightarrow> js_index \<Rightarrow> bool" where
  "js_neq i (Idx c) = (int i \<noteq> c)"
| "js_neq i Undefined = True"
| "js_neq i NaN = True"

text \<open>\<open>xs.slice(-49)\<close>: the last 49 elements, or all of them when there are fewer.\<close>

definition slice_last49 :: "'a list \<Rightarrow> 'a list" where
  "slice_last49 xs = drop (length xs - 49) xs"

text \<open>\<open>[...history.slice(-49), song]\<close>\<close>

definition push_history :: "song list \<Rightarrow> song \<Rightarrow> song list" where
  "push_history h s = slice_last49 h @ [s]"

text \<open>\<open>xs.filter((_, index) => index !== k)\<close>\<close>

definition remove_at :: "'a list \<Rightarrow> int \<Rightarrow> 'a list" where
  "remove_at xs k = map fst (filter (\<lambda>(x, i). int i \<noteq> k) (zip xs [0..<length xs]))"

text \<open>\<open>xs.findIndex(p)\<close>: the first position satisfying \<open>p\<close>, or \<open>-1\<close>.\<close>

fun findIndex_from :: "('a \<Rightarrow> bool) \<Rightarrow> 'a list \<Rightarrow> int \<Rightarrow> int" where
  "findIndex_from p [] i = - 1"
| "findIndex_from p (x # xs) i = (if p x then i else findIndex_from p xs (i + 1))"

definition findIndex :: "('a \<Rightarrow> bool) \<Rightarrow> 'a list \<Rightarrow> int" where
  "findIndex p xs = findIndex_from p xs 0"

text \<open>\<open>playlist.map((_, i) => i).filter(i => i !== currentIndex)\<close>\<close>

definition availableIndices :: "MusicPlayerState \<Rightarrow> nat list" where
  "availableIndices s = filter (\<lambda>i. js_neq i (currentIndex s)) [0..<length (playlist s)]"

text \<open>
  \<open>availableIndices[Math.floor(Math.random() * availableIndices.length)]\<close>, where \<open>r\<close> is
  the number that \<open>Math.random()\<close> returns (\<open>0 \<le> r < 1\<close>). On an empty array the read is
  out of range and gives \<open>undefined\<close>. The product is taken as a real number; the source
  rounds it to a double before \<open>Math.floor\<close>, which is the same for an array of fewer than
  two positions and can differ in the last place for longer ones.
\<close>

definition random_pick :: "real \<Rightarrow> nat list \<Rightarrow> js_index" where
  "random_pick r av =
     (case js_nth av \<lfloor>r * real (length av)\<rfloor> of
        Some i \<Rightarrow> Idx (int i)
      | None \<Rightarrow> Undefined)"

subsection \<open>The reducer\<close>

text \<open>
  \<open>musicPlayerReducer r s a\<close> is one evaluation of the reducer on state \<open>s\<close> and action
  \<open>a\<close>; \<open>r\<close> is the value \<open>Math.random()\<close> returns during that evaluation (it is read
  only in the shuffle branch of \<open>NEXT_SONG\<close>).
\<close>

definition next_song :: "real \<Rightarrow> MusicPlayerState \<Rightarrow> MusicPlayerState" where
  "next_song r s =
     (if length (queue s) > 0 then
        s\<lparr> currentSong := js_nth (queue s) 0,
           queue := drop 1 (queue s),
           history := (case currentSong s of
                         Some c \<Rightarrow> push_history (history s) c
                       | None \<Rightarrow> history s) \<rparr>
      else if repeat s = RepeatOne then s
      else
        let nextIndex = js_add (currentIndex s) 1;
            advance = (\<lambda>n. s\<lparr> currentIndex := n,
                               currentSong := js_at (playlist s) n,
                               history := (case currentSong s of
                                             Some c \<Rightarrow> push_history (history s) c
                                           | None \<Rightarrow> history s) \<rparr>)
        in if shuffle s then advance (random_pick r (availableIndices s))
           else if js_ge nextIndex (int (length (playlist s))) then
             (if repeat s = RepeatAll then advance (Idx 0)
              else s\<lparr> isPlaying := False \<rparr>)
           else advance nextIndex)"

definition previous_song :: "MusicPlayerState \<Rightarrow> MusicPlayerState" where
  "previous_song s =
     (if length (history s) > 0 then
        let previousSong = last (history s);
            previousIndex = findIndex (\<lambda>x. sid x = sid previousSong) (playlist s)
        in s\<lparr> currentSong := Some previousSong,
              currentIndex := (if previousIndex \<noteq> - 1 then Idx previousIndex
                               else currentIndex s),
              history := butlast (history s) \<rparr>
      else
        let prevIndex = js_add (currentIndex s) (- 1)
        in if js_lt prevIndex 0 then
             (if repeat s = RepeatAll then
                s\<lparr> currentIndex := Idx (int (length (playlist s)) - 1),
                   currentSong := js_nth (playlist s) (int (length (playlist s)) - 1) \<rparr>
              else s)
           else s\<lparr> currentIndex := prevIndex, currentSong := js_at (playlist s) prevIndex \<rparr>)"

fun musicPlayerReducer :: "real \<Rightarrow> MusicPlayerState \<Rightarrow> MusicPlayerAction \<Rightarrow> MusicPlayerState" where
  "musicPlayerReducer r s (SET_CURRENT_SONG sg pl ix) =
     (let newHistory = (case currentSong s of
                          Some c \<Rightarrow> if c \<notin> set (history s) then push_history (history s) c
                                    else history s
                        | None \<Rightarrow> history s)
      in s\<lparr> currentSong := Some sg,
            playlist := (case pl of Some p \<Rightarrow> p | None \<Rightarrow> playlist s),
            currentIndex := (case ix of Some i \<Rightarrow> Idx i | None \<Rightarrow> currentIndex s),
            history := newHistory \<rparr>)"
| "musicPlayerReducer r s (SET_PLAYLIST pl ix) =
     s\<lparr> playlist := pl,
        currentIndex := Idx (case ix of Some i \<Rightarrow> i | None \<Rightarrow> 0),
        currentSong := js_nth pl (case ix of Some i \<Rightarrow> i | None \<Rightarrow> 0) \<rparr>"
| "musicPlayerReducer r s NEXT_SONG = next_song r s"
| "musicPlayerReducer r s PREVIOUS_SONG = previous_song s"
| "musicPlayerReducer r s (SET_PLAYING b) = s\<lparr> isPlaying := b \<rparr>"
| "musicPlayerReducer r s (ADD_TO_QUEUE sg) = s\<lparr> queue := queue s @ [sg] \<rparr>"
| "musicPlayerReducer r s (REMOVE_FROM_QUEUE k) = s\<lparr> queue := remove_at (queue s) k \<rparr>"
| "musicPlayerReducer r s CLEAR_QUEUE = s\<lparr> queue := [] \<rparr>"
| "musicPlayerReducer r s (SET_REPEAT m) = s\<lparr> repeat := m \<rparr>"
| "musicPlayerReducer r s TOGGLE_SHUFFLE = s\<lparr> shuffle := \<not> shuffle s \<rparr>"
| "musicPlayerReducer r s CLEAR_PLAYER = initialState"

text \<open>A run of the reducer from a state: each step has its own random draw.\<close>

fun run_actions :: "MusicPlayerState \<Rightarrow> (real \<times> MusicPlayerAction) list \<Rightarrow> MusicPlayerState" where
  "run_actions s [] = s"
| "run_actions s ((r, a) # as) = run_actions (musicPlayerReducer r s a) as"


section \<open>API client (SaavnApiService) and error taxonomy\<close>

subsection \<open>Errors\<close>

text \<open>
  The value stored in \<open>ApiResponseError.responseData\<close>: nothing (\<open>null\<close> from
  \<open>safelyParseErrorResponse\<close>, or the argument left out), the parsed error body, or the
  object \<open>{ parseError: message }\<close>.
\<close>

datatype 'j response_data = NoData | ParsedBody 'j | ParseErrorInfo string

text \<open>A value kept in the context object of an error: a string, a number, an array of
  strings, \<open>undefined\<close>, or an object given by its properties in order.\<close>

datatype ctx_value =
    CStr string
  | CNum int
  | CList "string list"
  | CUndefined
  | CObj "(string \<times> ctx_value) list"

text \<open>
  The errors that travel through the client. \<open>OtherError name message\<close> is an error of the
  platform (the \<open>TypeError\<close> of a failed connection, the \<open>DOMException\<close> named
  \<open>AbortError\<close> of an aborted fetch); the other constructors are the classes of
  \<open>types/errors.ts\<close> with the constructor arguments this client passes.
\<close>

datatype 'j js_error =
    ValidationError string
  | ApiResponseError string nat "'j response_data"
  | NetworkError string "'j js_error option"
  | SaavnApiError string string "(string \<times> ctx_value) list"
  | OtherError string string

fun message :: "'j js_error \<Rightarrow> string" where
  "message (ValidationError m) = m"
| "message (ApiResponseError m st d) = m"
| "message (NetworkError m orig) = m"
| "message (SaavnApiError m opn ctx) = m"
| "message (OtherError n m) = m"

text \<open>\<open>error.name\<close>: \<open>BaseError\<close> sets it to the name of the class.\<close>

fun error_name :: "'j js_error \<Rightarrow> string" where
  "error_name (ValidationError m) = ''ValidationError''"
| "error_name (ApiResponseError m st d) = ''ApiResponseError''"
| "error_name (NetworkError m orig) = ''NetworkError''"
| "error_name (SaavnApiError m opn ctx) = ''SaavnApiError''"
| "error_name (OtherError n m) = n"

text \<open>\<open>getUserMessage()\<close>; an error that is not a \<open>BaseError\<close> has no such method.\<close>

fun getUserMessage :: "'j js_error \<Rightarrow> string option" where
  "getUserMessage (ValidationError m) = Some m"
| "getUserMessage (ApiResponseError m st d) =
     Some (if st = 404 then ''Content not found. Please check your search terms.''
           else if st = 429 then ''Too many requests. Please wait a moment and try again.''
           else if st \<ge> 500 then ''Server error. Please try again later.''
           else ''Request failed. Please try again.'')"
| "getUserMessage (NetworkError m orig) =
     Some ''Network error. Please check your connection and try again.''"
| "getUserMessage (SaavnApiError m opn ctx) = Some ''API request failed. Please try again.''"
| "getUserMessage (OtherError n m) = None"

text \<open>\<open>error.statusCode\<close>: a field of \<open>ApiResponseError\<close> only.\<close>

fun statusCode :: "'j js_error \<Rightarrow> nat option" where
  "statusCode (ApiResponseError m st d) = Some st"
| "statusCode e = None"

text \<open>The message \<open>useApiCall\<close> shows for a caught error.\<close>

definition hook_error_message :: "'j js_error \<Rightarrow> string" where
  "hook_error_message e = (case getUserMessage e of Some m \<Rightarrow> m | None \<Rightarrow> message e)"

subsection \<open>Configuration, platform and service state\<close>

text \<open>\<open>SaavnApiConfig\<close>. The retry count and the durations (in milliseconds) are natural
  numbers.\<close>

record SaavnApiConfig =
  baseUrl :: string
  timeout :: nat
  maxRetries :: nat
  retryDelay :: nat
  userAgent :: string
  rateLimitDelay :: nat

text \<open>\<open>DEFAULT_CONFIG\<close>, with the development base URL.\<close>

definition DEFAULT_CONFIG :: SaavnApiConfig where
  "DEFAULT_CONFIG =
     \<lparr> baseUrl = ''https://saavn.sumit.co'', timeout = 10000, maxRetries = 3,
       retryDelay = 1000, userAgent = ''Lumeo-Music-App/2.0.0'', rateLimitDelay = 100 \<rparr>"

text \<open>
  What \<open>fetch\<close> does on one attempt: it rejects with an error of the platform, given by its
  name and message (\<open>AbortError\<close> when the timer of the attempt fired and called
  \<open>controller.abort()\<close>, \<open>TypeError\<close> when the connection failed), or it resolves with a
  response: the status and what \<open>response.text()\<close> gives (a rejection, \<open>Inl (name, message)\<close>,
  or the text).
\<close>

datatype fetch_result =
    Rejects string string
  | Resolves nat "(string \<times> string) + string"

text \<open>
  The platform a call runs on: the result of \<open>fetch\<close> on the \<open>k\<close>-th attempt of the call,
  \<open>JSON.parse\<close> (\<open>Inl\<close> the message of its \<open>SyntaxError\<close>), \<open>encodeURIComponent\<close>, and
  \<open>URLSearchParams.prototype.toString\<close> on the list of name-value pairs of the object.
\<close>

record 'j platform =
  fetch :: "nat \<Rightarrow> fetch_result"
  json_parse :: "string \<Rightarrow> string + 'j"
  encodeURIComponent :: "string \<Rightarrow> string"
  searchParams_toString :: "(string \<times> string) list \<Rightarrow> string"

text \<open>What a call does to the outside, in order.\<close>

datatype event =
    RateLimitWait int
  | FetchCall string nat
  | BackoffWait nat

text \<open>The mutable field of a service instance, and the events it has caused so far.\<close>

record service =
  lastRequestTime :: int
  events :: "event list"

definition new_service :: service where
  "new_service = \<lparr> lastRequestTime = 0, events = [] \<rparr>"

fun is_fetch :: "event \<Rightarrow> bool" where
  "is_fetch (FetchCall u k) = True"
| "is_fetch e = False"

text \<open>The events a call has added to those of the service it started from.\<close>

definition new_events :: "service \<Rightarrow> service \<Rightarrow> event list" where
  "new_events svc svc' = drop (length (events svc)) (events svc')"

text \<open>The number of network attempts in a list of events, and the backoff delays in it.\<close>

definition attempts :: "event list \<Rightarrow> nat" where
  "attempts evs = length (filter is_fetch evs)"

fun delays :: "event list \<Rightarrow> nat list" where
  "delays [] = []"
| "delays (BackoffWait d # evs) = d # delays evs"
| "delays (e # evs) = delays evs"

subsection \<open>Numbers and strings of the host language\<close>

definition digit_char :: "nat \<Rightarrow> char" where
  "digit_char d = char_of (48 + d)"

text \<open>The decimal text of a number in a template string or from \<open>toString()\<close>. Numbers are
  integers here, and the text is that of the source for integers below 10^21 (from there on
  the source prints an exponent).\<close>

fun show_nat :: "nat \<Rightarrow> string" where
  "show_nat n = (if n < 10 then [digit_char n] else show_nat (n div 10) @ [digit_char (n mod 10)])"

definition show_int :: "int \<Rightarrow> string" where
  "show_int i = (if i < 0 then CHR ''-'' # show_nat (nat (- i)) else show_nat (nat i))"

text \<open>White space and line terminators that \<open>String.prototype.trim\<close> removes, among the
  characters a \<open>string\<close> of this model can hold (code units below 256).\<close>

definition is_space :: "char \<Rightarrow> bool" where
  "is_space c = (of_char c \<in> {9, 10, 11, 12, 13, 32, 160 :: nat})"

definition trim :: "string \<Rightarrow> string" where
  "trim s = rev (dropWhile is_space (rev (dropWhile is_space s)))"

text \<open>\<open>xs.join(sep)\<close> on an array of strings.\<close>

fun join_with :: "string \<Rightarrow> string list \<Rightarrow> string" where
  "join_with sep [] = []"
| "join_with sep [x] = x"
| "join_with sep (x # y # ys) = x @ sep @ join_with sep (y # ys)"

text \<open>Truthiness of an optional string parameter (\<open>None\<close> is \<open>undefined\<close>) and of an optional
  number: \<open>undefined\<close>, the empty string and 0 are falsy.\<close>

definition truthy_str :: "string option \<Rightarrow> bool" where
  "truthy_str x = (case x of Some v \<Rightarrow> v \<noteq> [] | None \<Rightarrow> False)"

definition truthy_num :: "int option \<Rightarrow> bool" where
  "truthy_num x = (case x of Some n \<Rightarrow> n \<noteq> 0 | None \<Rightarrow> False)"


subsection \<open>The request loop\<close>

text \<open>
  \<open>enforceRateLimit\<close>, called at time \<open>now\<close>: waits for the rest of \<open>rateLimitDelay\<close> when
  the last request started less than that ago, then stores the time again (taken as the
  time the wait was due to end).
\<close>

definition enforceRateLimit :: "SaavnApiConfig \<Rightarrow> int \<Rightarrow> service \<Rightarrow> service" where
  "enforceRateLimit cfg now svc =
     (let timeSinceLastRequest = now - lastRequestTime svc
      in if timeSinceLastRequest < int (rateLimitDelay cfg) then
           let delay = int (rateLimitDelay cfg) - timeSinceLastRequest
           in svc\<lparr> lastRequestTime := now + delay,
                   events := events svc @ [RateLimitWait delay] \<rparr>
         else svc\<lparr> lastRequestTime := now \<rparr>)"

text \<open>\<open>response.ok\<close>\<close>

definition ok :: "nat \<Rightarrow> bool" where
  "ok st = (200 \<le> st \<and> st \<le> 299)"

definition safelyParseErrorResponse ::
  "'j platform \<Rightarrow> (string \<times> string) + string \<Rightarrow> 'j response_data" where
  "safelyParseErrorResponse pf body =
     (case body of
        Inl e \<Rightarrow> NoData
      | Inr txt \<Rightarrow> (case json_parse pf txt of Inl m \<Rightarrow> NoData | Inr v \<Rightarrow> ParsedBody v))"

text \<open>The body of the \<open>try\<close> block on attempt \<open>k\<close>: \<open>Inl\<close> what it throws, \<open>Inr\<close> what it
  returns.\<close>

definition try_attempt :: "'j platform \<Rightarrow> nat \<Rightarrow> 'j js_error + 'j" where
  "try_attempt pf k =
     (case fetch pf k of
        Rejects n m \<Rightarrow> Inl (OtherError n m)
      | Resolves st body \<Rightarrow>
          if \<not> ok st then
            Inl (ApiResponseError (''HTTP '' @ show_nat st @ '': Request failed'') st
                   (safelyParseErrorResponse pf body))
          else
            (case body of
               Inl (n, m) \<Rightarrow> Inl (OtherError n m)
             | Inr responseText \<Rightarrow>
                 if responseText = [] then Inl (ApiResponseError ''Empty response body'' st NoData)
                 else
                   (case json_parse pf responseText of
                      Inl m \<Rightarrow> Inl (ApiResponseError ''Invalid JSON response'' st (ParseErrorInfo m))
                    | Inr parsedData \<Rightarrow> Inr parsedData)))"

text \<open>The first test of the \<open>catch\<close> block: validation errors and client errors (4xx).\<close>

fun no_retry :: "'j js_error \<Rightarrow> bool" where
  "no_retry (ValidationError m) = True"
| "no_retry (ApiResponseError m st d) = (st \<ge> 400 \<and> st < 500)"
| "no_retry e = False"

text \<open>
  The \<open>for\<close> loop of \<open>makeRequest\<close> from attempt \<open>attempt\<close> on, with the value of
  \<open>lastError\<close>: what the call returns or throws, and the events of the loop in order.
\<close>

function retry_loop ::
  "SaavnApiConfig \<Rightarrow> 'j platform \<Rightarrow> string \<Rightarrow> nat \<Rightarrow> 'j js_error option
     \<Rightarrow> ('j js_error + 'j) \<times> event list" where
  "retry_loop cfg pf url attempt lastError =
     (if attempt \<le> maxRetries cfg then
        (case try_attempt pf attempt of
           Inr parsedData \<Rightarrow> (Inr parsedData, [FetchCall url attempt])
         | Inl error \<Rightarrow>
             if no_retry error then (Inl error, [FetchCall url attempt])
             else if error_name error = ''AbortError'' then
               (Inl (NetworkError ''Request timeout'' (Some error)), [FetchCall url attempt])
             else if attempt < maxRetries cfg then
               (let delay = retryDelay cfg * 2 ^ attempt;
                    (res, evs) = retry_loop cfg pf url (attempt + 1) (Some error)
                in (res, FetchCall url attempt # BackoffWait delay # evs))
             else
               (let (res, evs) = retry_loop cfg pf url (attempt + 1) (Some error)
                in (res, FetchCall url attempt # evs)))
      else
        (Inl (NetworkError
               (''Failed to complete request after '' @ show_nat (maxRetries cfg + 1) @ '' attempts'')
               lastError), []))"
  by pat_completeness auto
termination
  by (relation "measure (\<lambda>(cfg, pf, url, attempt, lastError). maxRetries cfg + 1 - attempt)") auto

definition makeRequest ::
  "SaavnApiConfig \<Rightarrow> 'j platform \<Rightarrow> int \<Rightarrow> service \<Rightarrow> string
     \<Rightarrow> ('j js_error + 'j) \<times> service" where
  "makeRequest cfg pf now svc endpoint =
     (let svc1 = enforceRateLimit cfg now svc;
          url = baseUrl cfg @ endpoint;
          (res, evs) = retry_loop cfg pf url 0 None
      in (res, svc1\<lparr> events := events svc1 @ evs \<rparr>))"

subsection \<open>The search operations\<close>

definition validateAndSanitizeQuery :: "'j platform \<Rightarrow> string \<Rightarrow> 'j js_error + string" where
  "validateAndSanitizeQuery pf query =
     (if query = [] then
        Inl (ValidationError ''Query parameter is required and must be a string'')
      else
        let trimmed = trim query
        in if length trimmed = 0 then Inl (ValidationError ''Query parameter cannot be empty'')
           else if length trimmed > 100 then
             Inl (ValidationError ''Query parameter too long (max 100 characters)'')
           else Inr (encodeURIComponent pf trimmed))"

definition search ::
  "SaavnApiConfig \<Rightarrow> 'j platform \<Rightarrow> int \<Rightarrow> service \<Rightarrow> string \<Rightarrow> ('j js_error + 'j) \<times> service" where
  "search cfg pf now svc query =
     (case validateAndSanitizeQuery pf query of
        Inl e \<Rightarrow> (Inl e, svc)
      | Inr sanitizedQuery \<Rightarrow>
          (case makeRequest cfg pf now svc (''/api/search?query='' @ sanitizedQuery) of
             (Inr result, svc') \<Rightarrow> (Inr result, svc')
           | (Inl error, svc') \<Rightarrow>
               (Inl (SaavnApiError (''Search failed for query: '' @ query) ''search''
                      [(''query'', CStr query), (''error'', CStr (message error))]), svc')))"

text \<open>The four typed searches differ in the path, the message and the operation name only.
  \<open>page\<close> and \<open>limit\<close> default to 0 and 10.\<close>

definition paged_endpoint :: "string \<Rightarrow> string \<Rightarrow> int \<Rightarrow> int \<Rightarrow> string" where
  "paged_endpoint path sanitizedQuery page limit =
     path @ ''?query='' @ sanitizedQuery @ ''&page='' @ show_int page @ ''&limit='' @ show_int limit"

definition paged_context :: "string \<Rightarrow> int \<Rightarrow> int \<Rightarrow> 'j js_error \<Rightarrow> (string \<times> ctx_value) list" where
  "paged_context query page limit error =
     [(''query'', CStr query), (''page'', CNum page), (''limit'', CNum limit),
      (''error'', CStr (message error))]"

definition searchSongs ::
  "SaavnApiConfig \<Rightarrow> 'j platform \<Rightarrow> int \<Rightarrow> service \<Rightarrow> string \<Rightarrow> int option \<Rightarrow> int option
     \<Rightarrow> ('j js_error + 'j) \<times> service" where
  "searchSongs cfg pf now svc query page0 limit0 =
     (let page = (case page0 of Some p \<Rightarrow> p | None \<Rightarrow> 0);
          limit = (case limit0 of Some l \<Rightarrow> l | None \<Rightarrow> 10)
      in case validateAndSanitizeQuery pf query of
           Inl e \<Rightarrow> (Inl e, svc)
         | Inr sanitizedQuery \<Rightarrow>
             (case makeRequest cfg pf now svc
                     (paged_endpoint ''/api/search/songs'' sanitizedQuery page limit) of
                (Inr result, svc') \<Rightarrow> (Inr result, svc')
              | (Inl error, svc') \<Rightarrow>
                  (Inl (SaavnApiError (''Song search failed for query: '' @ query) ''searchSongs''
                         (paged_context query page limit error)), svc')))"

definition searchAlbums ::
  "SaavnApiConfig \<Rightarrow> 'j platform \<Rightarrow> int \<Rightarrow> service \<Rightarrow> string \<Rightarrow> int option \<Rightarrow> int option
     \<Rightarrow> ('j js_error + 'j) \<times> service" where
  "searchAlbums cfg pf now svc query page0 limit0 =
     (let page = (case page0 of Some p \<Rightarrow> p | None \<Rightarrow> 0);
          limit = (case limit0 of Some l \<Rightarrow> l | None \<Rightarrow> 10)
      in case validateAndSanitizeQuery pf query of
           Inl e \<Rightarrow> (Inl e, svc)
         | Inr sanitizedQuery \<Rightarrow>
             (case makeRequest cfg pf now svc
                     (paged_endpoint ''/api/search/albums'' sanitizedQuery page limit) of
                (Inr result, svc') \<Rightarrow> (Inr result, svc')
              | (Inl error, svc') \<Rightarrow>
                  (Inl (SaavnApiError (''Album search failed for query: '' @ query) ''searchAlbums''
                         (paged_context query page limit error)), svc')))"

definition searchArtists ::
  "SaavnApiConfig \<Rightarrow> 'j platform \<Rightarrow> int \<Rightarrow> service \<Rightarrow> string \<Rightarrow> int option \<Rightarrow> int option
     \<Rightarrow> ('j js_error + 'j) \<times> service" where
  "searchArtists cfg pf now svc query page0 limit0 =
     (let page = (case page0 of Some p \<Rightarrow> p | None \<Rightarrow> 0);
          limit = (case limit0 of Some l \<Rightarrow> l | None \<Rightarrow> 10)
      in case validateAndSanitizeQuery pf query of
           Inl e \<Rightarrow> (Inl e, svc)
         | Inr sanitizedQuery \<Rightarrow>
             (case makeRequest cfg pf now svc
                     (paged_endpoint ''/api/search/artists'' sanitizedQuery page limit) of
                (Inr result, svc') \<Rightarrow> (Inr result, svc')
              | (Inl error, svc') \<Rightarrow>
                  (Inl (SaavnApiError (''Artist search failed for query: '' @ query) ''searchArtists''
                         (paged_context query page limit error)), svc')))"

definition searchPlaylists ::
  "SaavnApiConfig \<Rightarrow> 'j platform \<Rightarrow> int \<Rightarrow> service \<Rightarrow> string \<Rightarrow> int option \<Rightarrow> int option
     \<Rightarrow> ('j js_error + 'j) \<times> service" where
  "searchPlaylists cfg pf now svc query page0 limit0 =
     (let page = (case page0 of Some p \<Rightarrow> p | None \<Rightarrow> 0);
          limit = (case limit0 of Some l \<Rightarrow> l | None \<Rightarrow> 10)
      in case validateAndSanitizeQuery pf query of
           Inl e \<Rightarrow> (Inl e, svc)
         | Inr sanitizedQuery \<Rightarrow>
             (case makeRequest cfg pf now svc
                     (paged_endpoint ''/api/search/playlists'' sanitizedQuery page limit) of
                (Inr result, svc') \<Rightarrow> (Inr result, svc')
              | (Inl error, svc') \<Rightarrow>
                  (Inl (SaavnApiError (''Playlist search failed for query: '' @ query) ''searchPlaylists''
                         (paged_context query page limit error)), svc')))"


subsection \<open>The other catalog operations\<close>

definition getSongs ::
  "SaavnApiConfig \<Rightarrow> 'j platform \<Rightarrow> int \<Rightarrow> service \<Rightarrow> string list \<Rightarrow> ('j js_error + 'j) \<times> service" where
  "getSongs cfg pf now svc ids =
     (if ids = [] then
        (Inl (ValidationError ''Song IDs array is required and cannot be empty''), svc)
      else
        let idsString = join_with '','' ids
        in case makeRequest cfg pf now svc (''/api/songs?ids='' @ encodeURIComponent pf idsString) of
             (Inr result, svc') \<Rightarrow> (Inr result, svc')
           | (Inl error, svc') \<Rightarrow>
               (Inl (SaavnApiError (''Failed to fetch songs with IDs: '' @ idsString) ''getSongs''
                      [(''ids'', CList ids), (''error'', CStr (message error))]), svc'))"

definition getSong ::
  "SaavnApiConfig \<Rightarrow> 'j platform \<Rightarrow> int \<Rightarrow> service \<Rightarrow> string \<Rightarrow> ('j js_error + 'j) \<times> service" where
  "getSong cfg pf now svc ident =
     (if ident = [] then (Inl (ValidationError ''Song ID is required''), svc)
      else
        case makeRequest cfg pf now svc (''/api/songs/'' @ encodeURIComponent pf ident) of
          (Inr result, svc') \<Rightarrow> (Inr result, svc')
        | (Inl error, svc') \<Rightarrow>
            (Inl (SaavnApiError (''Failed to fetch song with ID: '' @ ident) ''getSong''
                   [(''id'', CStr ident), (''error'', CStr (message error))]), svc'))"

definition getSongSuggestions ::
  "SaavnApiConfig \<Rightarrow> 'j platform \<Rightarrow> int \<Rightarrow> service \<Rightarrow> string \<Rightarrow> int option
     \<Rightarrow> ('j js_error + 'j) \<times> service" where
  "getSongSuggestions cfg pf now svc ident limit0 =
     (let limit = (case limit0 of Some l \<Rightarrow> l | None \<Rightarrow> 10)
      in if ident = [] then (Inl (ValidationError ''Song ID is required''), svc)
         else
           case makeRequest cfg pf now svc
                  (''/api/songs/'' @ encodeURIComponent pf ident @ ''/suggestions?limit='' @ show_int limit) of
             (Inr result, svc') \<Rightarrow> (Inr result, svc')
           | (Inl error, svc') \<Rightarrow>
               (Inl (SaavnApiError (''Failed to fetch suggestions for song ID: '' @ ident)
                      ''getSongSuggestions''
                      [(''id'', CStr ident), (''limit'', CNum limit),
                       (''error'', CStr (message error))]), svc'))"

text \<open>An optional string as a context value, and the \<open>append\<close> of a parameter that is made
  only when the value is truthy.\<close>

definition ctx_opt_str :: "string option \<Rightarrow> ctx_value" where
  "ctx_opt_str x = (case x of Some v \<Rightarrow> CStr v | None \<Rightarrow> CUndefined)"

definition append_if_str :: "string \<Rightarrow> string option \<Rightarrow> (string \<times> string) list" where
  "append_if_str name x = (case x of Some v \<Rightarrow> if v \<noteq> [] then [(name, v)] else [] | None \<Rightarrow> [])"

definition append_if_num :: "string \<Rightarrow> int option \<Rightarrow> (string \<times> string) list" where
  "append_if_num name x =
     (case x of Some n \<Rightarrow> if n \<noteq> 0 then [(name, show_int n)] else [] | None \<Rightarrow> [])"

definition getAlbum ::
  "SaavnApiConfig \<Rightarrow> 'j platform \<Rightarrow> int \<Rightarrow> service \<Rightarrow> string \<Rightarrow> string option
     \<Rightarrow> ('j js_error + 'j) \<times> service" where
  "getAlbum cfg pf now svc ident link =
     (if ident = [] \<and> \<not> truthy_str link then
        (Inl (ValidationError ''Either album ID or link is required''), svc)
      else
        let params = append_if_str ''id'' (Some ident) @ append_if_str ''link'' link
        in case makeRequest cfg pf now svc (''/api/albums?'' @ searchParams_toString pf params) of
             (Inr result, svc') \<Rightarrow> (Inr result, svc')
           | (Inl error, svc') \<Rightarrow>
               (Inl (SaavnApiError ''Failed to fetch album'' ''getAlbum''
                      [(''id'', CStr ident), (''link'', ctx_opt_str link),
                       (''error'', CStr (message error))]), svc'))"

datatype SortBy = Popularity | Latest | Alphabetical

datatype SortOrder = Asc | Desc

fun sortBy_text :: "SortBy \<Rightarrow> string" where
  "sortBy_text Popularity = ''popularity''"
| "sortBy_text Latest = ''latest''"
| "sortBy_text Alphabetical = ''alphabetical''"

fun sortOrder_text :: "SortOrder \<Rightarrow> string" where
  "sortOrder_text Asc = ''asc''"
| "sortOrder_text Desc = ''desc''"

record ArtistOptions =
  opt_page :: "int option"
  opt_songCount :: "int option"
  opt_albumCount :: "int option"
  opt_sortBy :: "SortBy option"
  opt_sortOrder :: "SortOrder option"

text \<open>The \<open>options\<close> object as a context value: the properties that are set, in the order
  of the interface.\<close>

definition ctx_options :: "ArtistOptions option \<Rightarrow> ctx_value" where
  "ctx_options x =
     (case x of
        None \<Rightarrow> CUndefined
      | Some opts \<Rightarrow>
          CObj ((case opt_page opts of Some n \<Rightarrow> [(''page'', CNum n)] | None \<Rightarrow> [])
              @ (case opt_songCount opts of Some n \<Rightarrow> [(''songCount'', CNum n)] | None \<Rightarrow> [])
              @ (case opt_albumCount opts of Some n \<Rightarrow> [(''albumCount'', CNum n)] | None \<Rightarrow> [])
              @ (case opt_sortBy opts of Some b \<Rightarrow> [(''sortBy'', CStr (sortBy_text b))] | None \<Rightarrow> [])
              @ (case opt_sortOrder opts of Some d \<Rightarrow> [(''sortOrder'', CStr (sortOrder_text d))]
                 | None \<Rightarrow> [])))"

definition getArtist ::
  "SaavnApiConfig \<Rightarrow> 'j platform \<Rightarrow> int \<Rightarrow> service \<Rightarrow> string \<Rightarrow> ArtistOptions option
     \<Rightarrow> string option \<Rightarrow> ('j js_error + 'j) \<times> service" where
  "getArtist cfg pf now svc ident options link =
     (if ident = [] \<and> \<not> truthy_str link then
        (Inl (ValidationError ''Either artist ID or link is required''), svc)
      else
        let params =
              append_if_str ''id'' (Some ident)
            @ append_if_str ''link'' link
            @ append_if_num ''page'' (Option.bind options opt_page)
            @ append_if_num ''songCount'' (Option.bind options opt_songCount)
            @ append_if_num ''albumCount'' (Option.bind options opt_albumCount)
            @ append_if_str ''sortBy'' (map_option sortBy_text (Option.bind options opt_sortBy))
            @ append_if_str ''sortOrder'' (map_option sortOrder_text (Option.bind options opt_sortOrder))
        in case makeRequest cfg pf now svc (''/api/artists?'' @ searchParams_toString pf params) of
             (Inr result, svc') \<Rightarrow> (Inr result, svc')
           | (Inl error, svc') \<Rightarrow>
               (Inl (SaavnApiError ''Failed to fetch artist'' ''getArtist''
                      [(''id'', CStr ident), (''link'', ctx_opt_str link),
                       (''options'', ctx_options options),
                       (''error'', CStr (message error))]), svc'))"

definition getArtistById ::
  "SaavnApiConfig \<Rightarrow> 'j platform \<Rightarrow> int \<Rightarrow> service \<Rightarrow> string \<Rightarrow> int option \<Rightarrow> int option
     \<Rightarrow> int option \<Rightarrow> SortBy option \<Rightarrow> SortOrder option \<Rightarrow> ('j js_error + 'j) \<times> service" where
  "getArtistById cfg pf now svc ident page0 songCount0 albumCount0 sortBy0 sortOrder0 =
     (let page = (case page0 of Some p \<Rightarrow> p | None \<Rightarrow> 0);
          songCount = (case songCount0 of Some n \<Rightarrow> n | None \<Rightarrow> 10);
          albumCount = (case albumCount0 of Some n \<Rightarrow> n | None \<Rightarrow> 10);
          sortBy = (case sortBy0 of Some b \<Rightarrow> b | None \<Rightarrow> Popularity);
          sortOrder = (case sortOrder0 of Some d \<Rightarrow> d | None \<Rightarrow> Desc)
      in if ident = [] then (Inl (ValidationError ''Artist ID is required''), svc)
         else
           let params = [(''page'', show_int page), (''songCount'', show_int songCount),
                         (''albumCount'', show_int albumCount), (''sortBy'', sortBy_text sortBy),
                         (''sortOrder'', sortOrder_text sortOrder)]
           in case makeRequest cfg pf now svc
                     (''/api/artists/'' @ encodeURIComponent pf ident @ ''?''
                        @ searchParams_toString pf params) of
                (Inr result, svc') \<Rightarrow> (Inr result, svc')
              | (Inl error, svc') \<Rightarrow>
                  (Inl (SaavnApiError (''Failed to fetch artist with ID: '' @ ident) ''getArtistById''
                         [(''id'', CStr ident), (''page'', CNum page), (''songCount'', CNum songCount),
                          (''albumCount'', CNum albumCount), (''sortBy'', CStr (sortBy_text sortBy)),
                          (''sortOrder'', CStr (sortOrder_text sortOrder)),
                          (''error'', CStr (message error))]), svc'))"

definition getArtistSongs ::
  "SaavnApiConfig \<Rightarrow> 'j platform \<Rightarrow> int \<Rightarrow> service \<Rightarrow> string \<Rightarrow> int option
     \<Rightarrow> SortBy option \<Rightarrow> SortOrder option \<Rightarrow> ('j js_error + 'j) \<times> service" where
  "getArtistSongs cfg pf now svc ident page0 sortBy0 sortOrder0 =
     (let page = (case page0 of Some p \<Rightarrow> p | None \<Rightarrow> 0);
          sortBy = (case sortBy0 of Some b \<Rightarrow> b | None \<Rightarrow> Popularity);
          sortOrder = (case sortOrder0 of Some d \<Rightarrow> d | None \<Rightarrow> Desc)
      in if ident = [] then (Inl (ValidationError ''Artist ID is required''), svc)
         else
           let params = [(''page'', show_int page), (''sortBy'', sortBy_text sortBy),
                         (''sortOrder'', sortOrder_text sortOrder)]
           in case makeRequest cfg pf now svc
                     (''/api/artists/'' @ encodeURIComponent pf ident @ ''/songs?''
                        @ searchParams_toString pf params) of
                (Inr result, svc') \<Rightarrow> (Inr result, svc')
              | (Inl error, svc') \<Rightarrow>
                  (Inl (SaavnApiError (''Failed to fetch songs for artist ID: '' @ ident)
                         ''getArtistSongs''
                         [(''id'', CStr ident), (''page'', CNum page),
                          (''sortBy'', CStr (sortBy_text sortBy)),
                          (''sortOrder'', CStr (sortOrder_text sortOrder)),
                          (''error'', CStr (message error))]), svc'))"

definition getArtistAlbums ::
  "SaavnApiConfig \<Rightarrow> 'j platform \<Rightarrow> int \<Rightarrow> service \<Rightarrow> string \<Rightarrow> int option
     \<Rightarrow> SortBy option \<Rightarrow> SortOrder option \<Rightarrow> ('j js_error + 'j) \<times> service" where
  "getArtistAlbums cfg pf now svc ident page0 sortBy0 sortOrder0 =
     (let page = (case page0 of Some p \<Rightarrow> p | None \<Rightarrow> 0);
          sortBy = (case sortBy0 of Some b \<Rightarrow> b | None \<Rightarrow> Popularity);
          sortOrder = (case sortOrder0 of Some d \<Rightarrow> d | None \<Rightarrow> Desc)
      in if ident = [] then (Inl (ValidationError ''Artist ID is required''), svc)
         else
           let params = [(''page'', show_int page), (''sortBy'', sortBy_text sortBy),
                         (''sortOrder'', sortOrder_text sortOrder)]
           in case makeRequest cfg pf now svc
                     (''/api/artists/'' @ encodeURIComponent pf ident @ ''/albums?''
                        @ searchParams_toString pf params) of
                (Inr result, svc') \<Rightarrow> (Inr result, svc')
              | (Inl error, svc') \<Rightarrow>
                  (Inl (SaavnApiError (''Failed to fetch albums for artist ID: '' @ ident)
                         ''getArtistAlbums''
                         [(''id'', CStr ident), (''page'', CNum page),
                          (''sortBy'', CStr (sortBy_text sortBy)),
                          (''sortOrder'', CStr (sortOrder_text sortOrder)),
                          (''error'', CStr (message error))]), svc'))"

definition getPlaylist ::
  "SaavnApiConfig \<Rightarrow> 'j platform \<Rightarrow> int \<Rightarrow> service \<Rightarrow> string \<Rightarrow> string option
     \<Rightarrow> int option \<Rightarrow> int option \<Rightarrow> ('j js_error + 'j) \<times> service" where
  "getPlaylist cfg pf now svc ident link page0 limit0 =
     (let page = (case page0 of Some p \<Rightarrow> p | None \<Rightarrow> 0);
          limit = (case limit0 of Some l \<Rightarrow> l | None \<Rightarrow> 10)
      in if ident = [] \<and> \<not> truthy_str link then
           (Inl (ValidationError ''Either playlist ID or link is required''), svc)
         else
           let params = [(''page'', show_int page), (''limit'', show_int limit)]
                      @ append_if_str ''id'' (Some ident) @ append_if_str ''link'' link
           in case makeRequest cfg pf now svc (''/api/playlists?'' @ searchParams_toString pf params) of
                (Inr result, svc') \<Rightarrow> (Inr result, svc')
              | (Inl error, svc') \<Rightarrow>
                  (Inl (SaavnApiError ''Failed to fetch playlist'' ''getPlaylist''
                         [(''id'', CStr ident), (''link'', ctx_opt_str link), (''page'', CNum page),
                          (''limit'', CNum limit), (''error'', CStr (message error))]), svc'))"


section \<open>Inputs named in the properties\<close>

text \<open>
  An attempt that fails with a server error (status 500 or more) or with a connection
  failure: \<open>fetch\<close> rejects, and not because the attempt was aborted by its timer.
\<close>

fun server_or_connection_failure :: "fetch_result \<Rightarrow> bool" where
  "server_or_connection_failure (Resolves st body) = (st \<ge> 500)"
| "server_or_connection_failure (Rejects n m) = (n \<noteq> ''AbortError'')"

text \<open>
  A response that the request loop retries: its status is outside 200..299 and outside
  400..499.
\<close>

fun retried_response :: "fetch_result \<Rightarrow> bool" where
  "retried_response (Resolves st body) = (\<not> ok st \<and> \<not> (400 \<le> st \<and> st \<le> 499))"
| "retried_response (Rejects n m) = False"

text \<open>
  A platform for examples: the first attempts get the results \<open>rs\<close> in order, every later
  attempt gets \<open>r\<close>; every text parses, and no character of a query or of a parameter
  needs escaping.
\<close>

definition scripted :: "fetch_result list \<Rightarrow> fetch_result \<Rightarrow> unit platform" where
  "scripted rs r =
     \<lparr> fetch = (\<lambda>k. if k < length rs then rs ! k else r),
       json_parse = (\<lambda>t. Inr ()), encodeURIComponent = (\<lambda>t. t),
       searchParams_toString = (\<lambda>ps. join_with ''&'' (map (\<lambda>(n, v). n @ ''='' @ v) ps)) \<rparr>"

text \<open>
  The history update of \<open>SET_CURRENT_SONG\<close> as the specification words it: the previous
  song is pushed unless it is missing or is the most recent history entry.
\<close>

definition spec_set_current_history :: "MusicPlayerState \<Rightarrow> song list" where
  "spec_set_current_history s =
     (case currentSong s of
        Some c \<Rightarrow> if history s = [] \<or> last (history s) \<noteq> c then push_history (history s) c
                  else history s
      | None \<Rightarrow> history s)"

declare retry_loop.simps [simp del]
declare show_nat.simps [simp del]


section \<open>Properties of the player reducer\<close>

subsection \<open>History\<close>

lemma length_push_history: "length (push_history h c) \<le> 50"
  by (simp add: push_history_def slice_last49_def)

lemma next_song_history_cases:
  "history (next_song r s) = history s \<or> (\<exists>c. history (next_song r s) = push_history (history s) c)"
  by (auto simp: next_song_def Let_def split: option.splits)

lemma history_bound_step:
  "length (history s) \<le> 50 \<Longrightarrow> length (history (musicPlayerReducer r s a)) \<le> 50"
proof (cases a)
  case NEXT_SONG
  assume b: "length (history s) \<le> 50"
  from next_song_history_cases [of r s] show ?thesis
    using b NEXT_SONG length_push_history by auto
next
  case PREVIOUS_SONG
  assume "length (history s) \<le> 50"
  then show ?thesis using PREVIOUS_SONG
    by (auto simp: previous_song_def Let_def)
next
  case (SET_CURRENT_SONG sg pl ix)
  assume "length (history s) \<le> 50"
  then show ?thesis using SET_CURRENT_SONG length_push_history
    by (auto simp: Let_def split: option.splits)
qed (simp_all add: initialState_def)

lemma history_bound_run:
  "length (history s) \<le> 50 \<Longrightarrow> length (history (run_actions s ras)) \<le> 50"
proof (induction ras arbitrary: s)
  case Nil
  then show ?case by simp
next
  case (Cons ra ras)
  obtain r a where ra: "ra = (r, a)" by (cases ra)
  from Cons.prems have "length (history (musicPlayerReducer r s a)) \<le> 50"
    by (rule history_bound_step)
  then show ?case using Cons.IH ra by simp
qed

text \<open>
  Claim C8. History is bounded by 50: every action takes a state whose history has at most
  50 entries to a state whose history has at most 50 entries, whatever the random draw; so
  every run of actions from the initial state (100 \<open>SET_CURRENT_SONG\<close> actions with distinct
  songs among them) ends with at most 50 entries.
\<close>

theorem history_bounded:
  "(length (history s) \<le> 50 \<longrightarrow> length (history (musicPlayerReducer r s a)) \<le> 50)
   \<and> length (history (run_actions initialState ras)) \<le> 50"
  using history_bound_step [of s r a] history_bound_run [of initialState ras]
  by (simp add: initialState_def)

text \<open>A full history of 50 entries stays within the bound when one more song is pushed.\<close>

theorem history_bounded_witness:
  "length (history (initialState\<lparr>currentSong := Some (Song 1 ''c''),
                                history := replicate 50 (Song 0 ''h'')\<rparr>)) \<le> 50
   \<and> length (history (musicPlayerReducer 0
        (initialState\<lparr>currentSong := Some (Song 1 ''c''), history := replicate 50 (Song 0 ''h'')\<rparr>)
        (SET_CURRENT_SONG (Song 2 ''n'') None None))) \<le> 50"
  using history_bounded [of "initialState\<lparr>currentSong := Some (Song 1 ''c''),
                                history := replicate 50 (Song 0 ''h'')\<rparr>" 0
                            "SET_CURRENT_SONG (Song 2 ''n'') None None" "[]"]
  by simp

subsection \<open>\<open>NEXT_SONG\<close> with a queue\<close>

text \<open>
  Claim C2. When the queue is not empty, \<open>NEXT_SONG\<close> makes the head of the queue the current
  song and leaves the rest as the queue; the previous current song, when there is one, is
  appended to the last 49 history entries; \<open>currentIndex\<close> and every other field keep their
  values. Nothing is assumed about \<open>repeat\<close>, so this holds in repeat-one mode too.
\<close>

theorem next_song_plays_queue_head:
  assumes "queue s = q # qs"
  shows "currentSong (musicPlayerReducer r s NEXT_SONG) = Some q
       \<and> queue (musicPlayerReducer r s NEXT_SONG) = qs
       \<and> history (musicPlayerReducer r s NEXT_SONG) =
           (case currentSong s of
              Some c \<Rightarrow> drop (length (history s) - 49) (history s) @ [c]
            | None \<Rightarrow> history s)
       \<and> currentIndex (musicPlayerReducer r s NEXT_SONG) = currentIndex s
       \<and> playlist (musicPlayerReducer r s NEXT_SONG) = playlist s
       \<and> repeat (musicPlayerReducer r s NEXT_SONG) = repeat s
       \<and> shuffle (musicPlayerReducer r s NEXT_SONG) = shuffle s
       \<and> isPlaying (musicPlayerReducer r s NEXT_SONG) = isPlaying s"
  using assms
  by (simp add: next_song_def js_nth_def push_history_def slice_last49_def split: option.splits)

text \<open>The example of the specification: queue \<open>[A, B]\<close>, repeat-one, current song \<open>X\<close>.\<close>

theorem next_song_plays_queue_head_witness:
  "queue (initialState\<lparr>queue := [Song 1 ''A'', Song 2 ''B''], repeat := RepeatOne,
                       currentSong := Some (Song 0 ''X'')\<rparr>) = [Song 1 ''A'', Song 2 ''B'']
   \<and> currentSong (musicPlayerReducer 0
        (initialState\<lparr>queue := [Song 1 ''A'', Song 2 ''B''], repeat := RepeatOne,
                       currentSong := Some (Song 0 ''X'')\<rparr>) NEXT_SONG) = Some (Song 1 ''A'')
   \<and> queue (musicPlayerReducer 0
        (initialState\<lparr>queue := [Song 1 ''A'', Song 2 ''B''], repeat := RepeatOne,
                       currentSong := Some (Song 0 ''X'')\<rparr>) NEXT_SONG) = [Song 2 ''B'']
   \<and> history (musicPlayerReducer 0
        (initialState\<lparr>queue := [Song 1 ''A'', Song 2 ''B''], repeat := RepeatOne,
                       currentSong := Some (Song 0 ''X'')\<rparr>) NEXT_SONG) = [Song 0 ''X'']
   \<and> currentIndex (musicPlayerReducer 0
        (initialState\<lparr>queue := [Song 1 ''A'', Song 2 ''B''], repeat := RepeatOne,
                       currentSong := Some (Song 0 ''X'')\<rparr>) NEXT_SONG) = Idx (- 1)"
  using next_song_plays_queue_head
          [of "initialState\<lparr>queue := [Song 1 ''A'', Song 2 ''B''], repeat := RepeatOne,
                             currentSong := Some (Song 0 ''X'')\<rparr>"
              "Song 1 ''A''" "[Song 2 ''B'']" 0]
  by (simp add: initialState_def)

subsection \<open>\<open>SET_CURRENT_SONG\<close>\<close>

text \<open>
  Claim C6, as stated, fails: with history \<open>[A, B]\<close> and current song \<open>A\<close>, the previous song
  exists and is not the most recent history entry, yet the reducer does not push it, since
  \<open>A\<close> occurs in the history.
\<close>

theorem set_current_song_history_counterexample:
  "history (musicPlayerReducer 0
      (initialState\<lparr>currentSong := Some (Song 1 ''A''), history := [Song 1 ''A'', Song 2 ''B'']\<rparr>)
      (SET_CURRENT_SONG (Song 3 ''C'') None None))
   \<noteq> spec_set_current_history
      (initialState\<lparr>currentSong := Some (Song 1 ''A''), history := [Song 1 ''A'', Song 2 ''B'']\<rparr>)"
  by (simp add: initialState_def spec_set_current_history_def push_history_def slice_last49_def)

text \<open>
  Claim C6, amended. \<open>SET_CURRENT_SONG\<close> sets the current song, the playlist and the index to
  the values of the action, the playlist and the index keeping their previous values when
  left out. The previous current song is pushed onto the history (after the last 49 entries,
  so that at most 50 remain) if and only if it exists and does not occur anywhere in the
  history; otherwise the history is unchanged.
\<close>

theorem set_current_song_effect:
  "currentSong (musicPlayerReducer r s (SET_CURRENT_SONG sg pl ix)) = Some sg
   \<and> playlist (musicPlayerReducer r s (SET_CURRENT_SONG sg pl ix)) =
       (case pl of Some p \<Rightarrow> p | None \<Rightarrow> playlist s)
   \<and> currentIndex (musicPlayerReducer r s (SET_CURRENT_SONG sg pl ix)) =
       (case ix of Some i \<Rightarrow> Idx i | None \<Rightarrow> currentIndex s)
   \<and> ((\<exists>c. currentSong s = Some c \<and> c \<notin> set (history s)) \<longrightarrow>
        history (musicPlayerReducer r s (SET_CURRENT_SONG sg pl ix)) =
          drop (length (history s) - 49) (history s) @ [the (currentSong s)]
        \<and> length (history (musicPlayerReducer r s (SET_CURRENT_SONG sg pl ix))) \<le> 50)
   \<and> (\<not> (\<exists>c. currentSong s = Some c \<and> c \<notin> set (history s)) \<longrightarrow>
        history (musicPlayerReducer r s (SET_CURRENT_SONG sg pl ix)) = history s)"
  by (auto simp: Let_def push_history_def slice_last49_def split: option.splits)

theorem set_current_song_effect_witness:
  "currentSong (initialState\<lparr>currentSong := Some (Song 1 ''A''), history := [Song 2 ''B'']\<rparr>)
     = Some (Song 1 ''A'')
   \<and> Song 1 ''A'' \<notin> set (history (initialState\<lparr>currentSong := Some (Song 1 ''A''),
                                                 history := [Song 2 ''B'']\<rparr>))
   \<and> history (musicPlayerReducer 0
        (initialState\<lparr>currentSong := Some (Song 1 ''A''), history := [Song 2 ''B'']\<rparr>)
        (SET_CURRENT_SONG (Song 3 ''C'') None (Some 4))) = [Song 2 ''B'', Song 1 ''A'']
   \<and> currentIndex (musicPlayerReducer 0
        (initialState\<lparr>currentSong := Some (Song 1 ''A''), history := [Song 2 ''B'']\<rparr>)
        (SET_CURRENT_SONG (Song 3 ''C'') None (Some 4))) = Idx 4
   \<and> playlist (musicPlayerReducer 0
        (initialState\<lparr>currentSong := Some (Song 1 ''A''), history := [Song 2 ''B'']\<rparr>)
        (SET_CURRENT_SONG (Song 3 ''C'') None (Some 4))) = []"
  using set_current_song_effect
          [of 0 "initialState\<lparr>currentSong := Some (Song 1 ''A''), history := [Song 2 ''B'']\<rparr>"
              "Song 3 ''C''" None "Some 4"]
  by (simp add: initialState_def)

subsection \<open>Determinism and the shuffle branch\<close>

text \<open>
  Claim C7, as stated, fails: with shuffle on, an empty queue, no repeat and the playlist
  \<open>[A, B, C]\<close> at index 0, the draw 0 moves to index 1 and the draw 1/2 moves to index 2.
\<close>

theorem reducer_shuffle_counterexample:
  "musicPlayerReducer 0
      (initialState\<lparr>playlist := [Song 1 ''A'', Song 2 ''B'', Song 3 ''C''], currentIndex := Idx 0,
                     currentSong := Some (Song 1 ''A''), shuffle := True\<rparr>) NEXT_SONG
   \<noteq> musicPlayerReducer (1 / 2)
      (initialState\<lparr>playlist := [Song 1 ''A'', Song 2 ''B'', Song 3 ''C''], currentIndex := Idx 0,
                     currentSong := Some (Song 1 ''A''), shuffle := True\<rparr>) NEXT_SONG"
  by (simp add: initialState_def next_song_def availableIndices_def random_pick_def js_nth_def upt_rec)

lemma random_pick_small:
  assumes "0 \<le> r1" "r1 < 1" "0 \<le> r2" "r2 < 1" "length av < 2"
  shows "random_pick r1 av = random_pick r2 av"
proof (cases av)
  case Nil
  then show ?thesis by (simp add: random_pick_def js_nth_def)
next
  case (Cons x xs)
  with assms have xs: "xs = []" by simp
  from assms have "\<lfloor>r1\<rfloor> = 0" "\<lfloor>r2\<rfloor> = 0" by (simp_all add: floor_eq_iff)
  with Cons xs show ?thesis by (simp add: random_pick_def js_nth_def)
qed

text \<open>
  Claim C7, amended. Two evaluations of the reducer on the same state and action give the
  same state, whatever \<open>Math.random()\<close> returns in each, except for \<open>NEXT_SONG\<close> with shuffle
  on, an empty queue, a repeat mode other than one and at least two playlist positions
  other than the current one: there the outcome depends on the draw.
\<close>

theorem reducer_deterministic_outside_shuffle:
  assumes "0 \<le> r1" "r1 < 1" "0 \<le> r2" "r2 < 1"
    and "\<not> (a = NEXT_SONG \<and> queue s = [] \<and> repeat s \<noteq> RepeatOne \<and> shuffle s
            \<and> length (availableIndices s) \<ge> 2)"
  shows "musicPlayerReducer r1 s a = musicPlayerReducer r2 s a"
proof (cases a)
  case NEXT_SONG
  show ?thesis
  proof (cases "queue s = [] \<and> repeat s \<noteq> RepeatOne \<and> shuffle s")
    case True
    with assms(5) NEXT_SONG have "length (availableIndices s) < 2" by simp
    with assms have "random_pick r1 (availableIndices s) = random_pick r2 (availableIndices s)"
      by (intro random_pick_small)
    with True NEXT_SONG show ?thesis by (simp add: next_song_def Let_def)
  next
    case False
    with NEXT_SONG show ?thesis by (auto simp: next_song_def Let_def)
  qed
qed simp_all

text \<open>Shuffle on a two-song playlist: one position is available, and both draws take it.\<close>

theorem reducer_deterministic_outside_shuffle_witness:
  "(0::real) \<le> 1 / 4 \<and> (1 / 4 :: real) < 1 \<and> (0::real) \<le> 3 / 4 \<and> (3 / 4 :: real) < 1
   \<and> length (availableIndices
        (initialState\<lparr>playlist := [Song 1 ''A'', Song 2 ''B''], currentIndex := Idx 0,
                       currentSong := Some (Song 1 ''A''), shuffle := True\<rparr>)) = 1
   \<and> musicPlayerReducer (1 / 4)
        (initialState\<lparr>playlist := [Song 1 ''A'', Song 2 ''B''], currentIndex := Idx 0,
                       currentSong := Some (Song 1 ''A''), shuffle := True\<rparr>) NEXT_SONG
     = musicPlayerReducer (3 / 4)
        (initialState\<lparr>playlist := [Song 1 ''A'', Song 2 ''B''], currentIndex := Idx 0,
                       currentSong := Some (Song 1 ''A''), shuffle := True\<rparr>) NEXT_SONG"
  using reducer_deterministic_outside_shuffle
          [of "1 / 4" "3 / 4" NEXT_SONG
              "initialState\<lparr>playlist := [Song 1 ''A'', Song 2 ''B''], currentIndex := Idx 0,
                             currentSong := Some (Song 1 ''A''), shuffle := True\<rparr>"]
  by (simp add: initialState_def availableIndices_def upt_rec)

lemma availableIndices_empty_iff:
  "availableIndices s = [] \<longleftrightarrow>
     playlist s = [] \<or> (length (playlist s) = 1 \<and> currentIndex s = Idx 0)"
proof
  assume e: "availableIndices s = []"
  then have all: "\<forall>i < length (playlist s). \<not> js_neq i (currentIndex s)"
    by (auto simp: availableIndices_def filter_empty_conv)
  show "playlist s = [] \<or> (length (playlist s) = 1 \<and> currentIndex s = Idx 0)"
  proof (cases "playlist s = []")
    case True
    then show ?thesis by simp
  next
    case False
    then have pos: "0 < length (playlist s)" by simp
    with all have z: "\<not> js_neq 0 (currentIndex s)" by blast
    then have ci: "currentIndex s = Idx 0" by (cases "currentIndex s") auto
    have "length (playlist s) = 1"
    proof (rule ccontr)
      assume "length (playlist s) \<noteq> 1"
      with pos have "1 < length (playlist s)" by linarith
      with all have "\<not> js_neq 1 (currentIndex s)" by blast
      with ci show False by simp
    qed
    with ci show ?thesis by simp
  qed
next
  assume "playlist s = [] \<or> (length (playlist s) = 1 \<and> currentIndex s = Idx 0)"
  then show "availableIndices s = []"
    by (auto simp: availableIndices_def)
qed

text \<open>
  Claim C10. With an empty queue, a repeat mode other than one, shuffle on and no playlist
  position that differs from \<open>currentIndex\<close>, \<open>NEXT_SONG\<close> leaves no current song and sets
  \<open>currentIndex\<close> to \<open>undefined\<close>, which is no position of the playlist. Such a playlist is
  empty, or has one song with \<open>currentIndex = 0\<close>.
\<close>

theorem next_song_shuffle_nothing_available:
  assumes "queue s = []" "repeat s \<noteq> RepeatOne" "shuffle s"
    and "\<forall>i < length (playlist s). \<not> js_neq i (currentIndex s)"
  shows "currentSong (musicPlayerReducer r s NEXT_SONG) = None
       \<and> currentIndex (musicPlayerReducer r s NEXT_SONG) = Undefined
       \<and> js_at (playlist (musicPlayerReducer r s NEXT_SONG))
               (currentIndex (musicPlayerReducer r s NEXT_SONG)) = None
       \<and> (playlist s = [] \<or> (length (playlist s) = 1 \<and> currentIndex s = Idx 0))"
proof -
  from assms(4) have e: "availableIndices s = []"
    by (auto simp: availableIndices_def filter_empty_conv)
  then have "random_pick r (availableIndices s) = Undefined"
    by (simp add: random_pick_def js_nth_def)
  with assms(1-3) have "currentSong (musicPlayerReducer r s NEXT_SONG) = None
       \<and> currentIndex (musicPlayerReducer r s NEXT_SONG) = Undefined
       \<and> js_at (playlist (musicPlayerReducer r s NEXT_SONG))
               (currentIndex (musicPlayerReducer r s NEXT_SONG)) = None"
    by (simp add: next_song_def Let_def)
  moreover from e have "playlist s = [] \<or> (length (playlist s) = 1 \<and> currentIndex s = Idx 0)"
    by (simp add: availableIndices_empty_iff)
  ultimately show ?thesis by simp
qed

text \<open>A one-song playlist playing its only song, in shuffle mode.\<close>

theorem next_song_shuffle_nothing_available_witness:
  "queue (initialState\<lparr>playlist := [Song 1 ''A''], currentIndex := Idx 0,
                       currentSong := Some (Song 1 ''A''), shuffle := True\<rparr>) = []
   \<and> repeat (initialState\<lparr>playlist := [Song 1 ''A''], currentIndex := Idx 0,
                          currentSong := Some (Song 1 ''A''), shuffle := True\<rparr>) \<noteq> RepeatOne
   \<and> shuffle (initialState\<lparr>playlist := [Song 1 ''A''], currentIndex := Idx 0,
                           currentSong := Some (Song 1 ''A''), shuffle := True\<rparr>)
   \<and> currentSong (musicPlayerReducer (1 / 2)
        (initialState\<lparr>playlist := [Song 1 ''A''], currentIndex := Idx 0,
                       currentSong := Some (Song 1 ''A''), shuffle := True\<rparr>) NEXT_SONG) = None
   \<and> currentIndex (musicPlayerReducer (1 / 2)
        (initialState\<lparr>playlist := [Song 1 ''A''], currentIndex := Idx 0,
                       currentSong := Some (Song 1 ''A''), shuffle := True\<rparr>) NEXT_SONG) = Undefined"
  using next_song_shuffle_nothing_available
          [of "initialState\<lparr>playlist := [Song 1 ''A''], currentIndex := Idx 0,
                             currentSong := Some (Song 1 ''A''), shuffle := True\<rparr>" "1 / 2"]
  by (simp add: initialState_def)

section \<open>Properties of the API client\<close>

subsection \<open>The request loop\<close>


lemma attempts_single [simp]: "attempts [FetchCall u k] = 1"
  by (simp add: attempts_def)

lemma attempts_append: "attempts (xs @ ys) = attempts xs + attempts ys"
  by (simp add: attempts_def)

lemma delays_append: "delays (xs @ ys) = delays xs @ delays ys"
  by (induction xs rule: delays.induct) simp_all

lemma rate_limit_events:
  "\<exists>w. events (enforceRateLimit cfg now svc) = events svc @ w \<and> attempts w = 0 \<and> delays w = []"
  by (simp add: enforceRateLimit_def Let_def attempts_def)

lemma makeRequest_fst:
  "fst (makeRequest cfg pf now svc ep) = fst (retry_loop cfg pf (baseUrl cfg @ ep) 0 None)"
  by (simp add: makeRequest_def Let_def split: prod.splits)

lemma makeRequest_attempts:
  "attempts (new_events svc (snd (makeRequest cfg pf now svc ep)))
     = attempts (snd (retry_loop cfg pf (baseUrl cfg @ ep) 0 None))"
proof -
  obtain w where w: "events (enforceRateLimit cfg now svc) = events svc @ w" "attempts w = 0"
    using rate_limit_events by blast
  then show ?thesis
    by (simp add: makeRequest_def Let_def new_events_def attempts_append split: prod.splits)
qed

lemma makeRequest_delays:
  "delays (new_events svc (snd (makeRequest cfg pf now svc ep)))
     = delays (snd (retry_loop cfg pf (baseUrl cfg @ ep) 0 None))"
proof -
  obtain w where w: "events (enforceRateLimit cfg now svc) = events svc @ w" "delays w = []"
    using rate_limit_events by blast
  then show ?thesis
    by (simp add: makeRequest_def Let_def new_events_def delays_append split: prod.splits)
qed

lemma try_attempt_failure:
  assumes "server_or_connection_failure (fetch pf k)"
  shows "\<exists>e. try_attempt pf k = Inl e \<and> \<not> no_retry e \<and> error_name e \<noteq> ''AbortError''"
proof (cases "fetch pf k")
  case (Rejects n m)
  with assms show ?thesis by (simp add: try_attempt_def)
next
  case (Resolves st body)
  with assms have "st \<ge> 500" by simp
  then have "\<not> ok st" by (simp add: ok_def)
  with Resolves \<open>st \<ge> 500\<close> show ?thesis by (simp add: try_attempt_def)
qed

lemma retry_loop_exhausted:
  "maxRetries cfg < a \<Longrightarrow>
   retry_loop cfg pf url a le =
     (Inl (NetworkError (''Failed to complete request after '' @ show_nat (maxRetries cfg + 1) @ '' attempts'') le), [])"
  by (simp add: retry_loop.simps)

lemma retry_loop_retry:
  assumes "a \<le> maxRetries cfg" "try_attempt pf a = Inl e" "\<not> no_retry e" "error_name e \<noteq> ''AbortError''"
  shows "retry_loop cfg pf url a le =
           (fst (retry_loop cfg pf url (a + 1) (Some e)),
            FetchCall url a # (if a < maxRetries cfg then [BackoffWait (retryDelay cfg * 2 ^ a)] else [])
              @ snd (retry_loop cfg pf url (a + 1) (Some e)))"
  using assms by (subst retry_loop.simps) (simp add: Let_def split: prod.splits)

lemma retry_loop_all_fail:
  assumes "\<forall>k \<le> maxRetries cfg. server_or_connection_failure (fetch pf k)"
  shows "a \<le> maxRetries cfg + 1 \<Longrightarrow>
         attempts (snd (retry_loop cfg pf url a le)) = maxRetries cfg + 1 - a
       \<and> delays (snd (retry_loop cfg pf url a le)) = map (\<lambda>i. retryDelay cfg * 2 ^ i) [a..<maxRetries cfg]
       \<and> (\<exists>orig. fst (retry_loop cfg pf url a le) =
            Inl (NetworkError (''Failed to complete request after '' @ show_nat (maxRetries cfg + 1) @ '' attempts'') orig)
            \<and> (a \<le> maxRetries cfg \<longrightarrow> orig \<noteq> None))"
proof (induction "maxRetries cfg + 1 - a" arbitrary: a le)
  case 0
  then have "maxRetries cfg < a" by simp
  then show ?case by (simp add: retry_loop_exhausted attempts_def)
next
  case (Suc n)
  then have le: "a \<le> maxRetries cfg" by simp
  with assms obtain e where e: "try_attempt pf a = Inl e" "\<not> no_retry e" "error_name e \<noteq> ''AbortError''"
    using try_attempt_failure by blast
  have step: "retry_loop cfg pf url a le =
           (fst (retry_loop cfg pf url (a + 1) (Some e)),
            FetchCall url a # (if a < maxRetries cfg then [BackoffWait (retryDelay cfg * 2 ^ a)] else [])
              @ snd (retry_loop cfg pf url (a + 1) (Some e)))"
    using le e by (rule retry_loop_retry)
  have n: "n = maxRetries cfg + 1 - (a + 1)" using Suc.hyps(2) by simp
  have bound: "a + 1 \<le> maxRetries cfg + 1" using le by simp
  note IH = Suc.hyps(1) [OF n bound, of "Some e"]
  show ?case
  proof (cases "a < maxRetries cfg")
    case True
    with IH step le show ?thesis
      by (auto simp: attempts_def upt_conv_Cons)
  next
    case False
    with le have eq: "a = maxRetries cfg" by simp
    then have ex: "retry_loop cfg pf url (a + 1) (Some e) =
       (Inl (NetworkError (''Failed to complete request after '' @ show_nat (maxRetries cfg + 1) @ '' attempts'') (Some e)), [])"
      by (simp add: retry_loop_exhausted)
    with step eq show ?thesis by (simp add: attempts_def)
  qed
qed

lemma retry_loop_all_fail_events:
  assumes "\<forall>k \<le> maxRetries cfg. server_or_connection_failure (fetch pf k)"
  shows "a \<le> maxRetries cfg + 1 \<Longrightarrow>
         snd (retry_loop cfg pf url a le) =
           concat (map (\<lambda>i. FetchCall url i #
                          (if i < maxRetries cfg then [BackoffWait (retryDelay cfg * 2 ^ i)] else []))
                       [a..<maxRetries cfg + 1])"
proof (induction "maxRetries cfg + 1 - a" arbitrary: a le)
  case 0
  then have "maxRetries cfg < a" by simp
  then show ?case by (simp add: retry_loop_exhausted)
next
  case (Suc n)
  then have le: "a \<le> maxRetries cfg" by simp
  with assms obtain e where e: "try_attempt pf a = Inl e" "\<not> no_retry e" "error_name e \<noteq> ''AbortError''"
    using try_attempt_failure by blast
  have step: "retry_loop cfg pf url a le =
           (fst (retry_loop cfg pf url (a + 1) (Some e)),
            FetchCall url a # (if a < maxRetries cfg then [BackoffWait (retryDelay cfg * 2 ^ a)] else [])
              @ snd (retry_loop cfg pf url (a + 1) (Some e)))"
    using le e by (rule retry_loop_retry)
  have n: "n = maxRetries cfg + 1 - (a + 1)" using Suc.hyps(2) by simp
  have bound: "a + 1 \<le> maxRetries cfg + 1" using le by simp
  have up: "[a..<maxRetries cfg + 1] = a # [a + 1..<maxRetries cfg + 1]"
    using le by (simp add: upt_conv_Cons)
  from Suc.hyps(1) [OF n bound, of "Some e"] step show ?case
    by (simp only: up) simp
qed

text \<open>
  Claim C4. When every attempt of a call fails with a status of 500 or more or with a
  connection failure other than a timeout, the call makes exactly \<open>maxRetries + 1\<close> attempts
  and then fails with a Network error; after attempt \<open>i\<close>, for every attempt but the last,
  it waits \<open>retryDelay * 2 ^ i\<close>: the delays are \<open>D, 2D, 4D, ...\<close>.
\<close>

theorem server_failure_retried_to_cap:
  assumes "\<forall>k \<le> maxRetries cfg. server_or_connection_failure (fetch pf k)"
  shows "attempts (new_events svc (snd (makeRequest cfg pf now svc endpoint))) = maxRetries cfg + 1
       \<and> delays (new_events svc (snd (makeRequest cfg pf now svc endpoint)))
           = map (\<lambda>i. retryDelay cfg * 2 ^ i) [0..<maxRetries cfg]
       \<and> (\<exists>orig. fst (makeRequest cfg pf now svc endpoint) =
            Inl (NetworkError (''Failed to complete request after '' @ show_nat (maxRetries cfg + 1) @ '' attempts'') (Some orig)))
       \<and> snd (retry_loop cfg pf (baseUrl cfg @ endpoint) 0 None) =
           concat (map (\<lambda>i. FetchCall (baseUrl cfg @ endpoint) i #
                          (if i < maxRetries cfg then [BackoffWait (retryDelay cfg * 2 ^ i)] else []))
                       [0..<maxRetries cfg + 1])"
  using retry_loop_all_fail [OF assms, of 0 "baseUrl cfg @ endpoint" None]
        retry_loop_all_fail_events [OF assms, of 0 "baseUrl cfg @ endpoint" None]
  by (auto simp: makeRequest_fst makeRequest_attempts makeRequest_delays)

text \<open>The default configuration: a refused connection, then a server that answers 503.\<close>

theorem server_failure_retried_to_cap_witness:
  "attempts (new_events new_service (snd (makeRequest DEFAULT_CONFIG
         (scripted [Rejects ''TypeError'' ''Failed to fetch''] (Resolves 503 (Inr [])))
         0 new_service ''/api/songs/x''))) = 4
   \<and> delays (new_events new_service (snd (makeRequest DEFAULT_CONFIG
         (scripted [Rejects ''TypeError'' ''Failed to fetch''] (Resolves 503 (Inr [])))
         0 new_service ''/api/songs/x''))) = [1000, 2000, 4000]"
  using server_failure_retried_to_cap [of DEFAULT_CONFIG
              "scripted [Rejects ''TypeError'' ''Failed to fetch''] (Resolves 503 (Inr []))"
              new_service 0 "''/api/songs/x''"]
  by (simp add: DEFAULT_CONFIG_def scripted_def upt_rec)

lemma retry_loop_abort:
  assumes "a \<le> maxRetries cfg" "fetch pf a = Rejects ''AbortError'' m"
  shows "retry_loop cfg pf url a le =
           (Inl (NetworkError ''Request timeout'' (Some (OtherError ''AbortError'' m))), [FetchCall url a])"
  using assms by (subst retry_loop.simps) (simp add: try_attempt_def)

lemma retry_loop_client_error:
  assumes "a \<le> maxRetries cfg" "fetch pf a = Resolves st body" "400 \<le> st" "st \<le> 499"
  shows "retry_loop cfg pf url a le =
           (Inl (ApiResponseError (''HTTP '' @ show_nat st @ '': Request failed'') st
                   (safelyParseErrorResponse pf body)), [FetchCall url a])"
  using assms by (subst retry_loop.simps) (simp add: try_attempt_def ok_def)

lemma retry_loop_prefix:
  assumes "\<forall>i < k. server_or_connection_failure (fetch pf i)" "k \<le> maxRetries cfg"
  shows "a \<le> k \<Longrightarrow>
         \<exists>le'. fst (retry_loop cfg pf url a le) = fst (retry_loop cfg pf url k le')
            \<and> attempts (snd (retry_loop cfg pf url a le)) = (k - a) + attempts (snd (retry_loop cfg pf url k le'))
            \<and> delays (snd (retry_loop cfg pf url a le)) =
                 map (\<lambda>i. retryDelay cfg * 2 ^ i) [a..<k] @ delays (snd (retry_loop cfg pf url k le'))"
proof (induction "k - a" arbitrary: a le)
  case 0
  then have "a = k" by simp
  then show ?case by auto
next
  case (Suc n)
  then have lt: "a < k" by simp
  with assms have le: "a \<le> maxRetries cfg" and lt': "a < maxRetries cfg" by simp_all
  from lt assms obtain e where e: "try_attempt pf a = Inl e" "\<not> no_retry e" "error_name e \<noteq> ''AbortError''"
    using try_attempt_failure by blast
  have step: "retry_loop cfg pf url a le =
           (fst (retry_loop cfg pf url (a + 1) (Some e)),
            FetchCall url a # (if a < maxRetries cfg then [BackoffWait (retryDelay cfg * 2 ^ a)] else [])
              @ snd (retry_loop cfg pf url (a + 1) (Some e)))"
    using le e by (rule retry_loop_retry)
  have n: "n = k - (a + 1)" using Suc.hyps(2) by simp
  have bound: "a + 1 \<le> k" using lt by simp
  from Suc.hyps(1) [OF n bound, of "Some e"] obtain le' where IH:
    "fst (retry_loop cfg pf url (a + 1) (Some e)) = fst (retry_loop cfg pf url k le')"
    "attempts (snd (retry_loop cfg pf url (a + 1) (Some e))) = (k - (a + 1)) + attempts (snd (retry_loop cfg pf url k le'))"
    "delays (snd (retry_loop cfg pf url (a + 1) (Some e))) =
                 map (\<lambda>i. retryDelay cfg * 2 ^ i) [a + 1..<k] @ delays (snd (retry_loop cfg pf url k le'))"
    by blast
  have "fst (retry_loop cfg pf url a le) = fst (retry_loop cfg pf url k le')"
    using step IH(1) by simp
  moreover have "attempts (snd (retry_loop cfg pf url a le)) = (k - a) + attempts (snd (retry_loop cfg pf url k le'))"
    using step IH(2) lt lt' by (simp add: attempts_def)
  moreover have "delays (snd (retry_loop cfg pf url a le)) =
                 map (\<lambda>i. retryDelay cfg * 2 ^ i) [a..<k] @ delays (snd (retry_loop cfg pf url k le'))"
    using step IH(3) lt lt' by (simp add: upt_conv_Cons)
  ultimately show ?case by blast
qed

text \<open>
  Claim C1, as stated, fails: with the default configuration (\<open>maxRetries = 3\<close>) a call whose
  every attempt times out makes one attempt, not four.
\<close>

theorem timeout_retry_counterexample:
  "attempts (new_events new_service (snd (makeRequest DEFAULT_CONFIG
       (scripted [] (Rejects ''AbortError'' ''The operation was aborted.''))
       0 new_service ''/api/search?query=a''))) = 1
   \<and> maxRetries DEFAULT_CONFIG + 1 = 4"
  by code_simp

text \<open>
  Claim C1, amended. An attempt that runs into the timeout and is aborted is classified as
  a Network error (\<open>Request timeout\<close>, wrapping the abort) and ends the call: it is not
  retried, whatever \<open>maxRetries\<close> is. A call that times out on its first attempt makes
  exactly one attempt; one that times out after \<open>k\<close> retried failures makes \<open>k + 1\<close>.
\<close>

theorem timeout_not_retried:
  assumes "k \<le> maxRetries cfg"
    and "\<forall>i < k. server_or_connection_failure (fetch pf i)"
    and "fetch pf k = Rejects ''AbortError'' m"
  shows "fst (makeRequest cfg pf now svc endpoint) =
           Inl (NetworkError ''Request timeout'' (Some (OtherError ''AbortError'' m)))
       \<and> attempts (new_events svc (snd (makeRequest cfg pf now svc endpoint))) = k + 1
       \<and> delays (new_events svc (snd (makeRequest cfg pf now svc endpoint)))
           = map (\<lambda>i. retryDelay cfg * 2 ^ i) [0..<k]"
proof -
  obtain le' where p:
    "fst (retry_loop cfg pf (baseUrl cfg @ endpoint) 0 None) = fst (retry_loop cfg pf (baseUrl cfg @ endpoint) k le')"
    "attempts (snd (retry_loop cfg pf (baseUrl cfg @ endpoint) 0 None))
       = (k - 0) + attempts (snd (retry_loop cfg pf (baseUrl cfg @ endpoint) k le'))"
    "delays (snd (retry_loop cfg pf (baseUrl cfg @ endpoint) 0 None)) =
       map (\<lambda>i. retryDelay cfg * 2 ^ i) [0..<k] @ delays (snd (retry_loop cfg pf (baseUrl cfg @ endpoint) k le'))"
    using retry_loop_prefix [OF assms(2) assms(1), of 0 "baseUrl cfg @ endpoint" None] by blast
  have "retry_loop cfg pf (baseUrl cfg @ endpoint) k le' =
           (Inl (NetworkError ''Request timeout'' (Some (OtherError ''AbortError'' m))),
            [FetchCall (baseUrl cfg @ endpoint) k])"
    using assms(1) assms(3) by (rule retry_loop_abort)
  with p have "fst (retry_loop cfg pf (baseUrl cfg @ endpoint) 0 None) = Inl (NetworkError ''Request timeout'' (Some (OtherError ''AbortError'' m)))"
    and "attempts (snd (retry_loop cfg pf (baseUrl cfg @ endpoint) 0 None)) = k + 1"
    and "delays (snd (retry_loop cfg pf (baseUrl cfg @ endpoint) 0 None))
           = map (\<lambda>i. retryDelay cfg * 2 ^ i) [0..<k]"
    by (simp_all add: attempts_def)
  then show ?thesis
    by (simp add: makeRequest_fst makeRequest_attempts makeRequest_delays)
qed

text \<open>A server error on the first attempt, a timeout on the second: two attempts, one wait.\<close>

theorem timeout_not_retried_witness:
  "fst (makeRequest DEFAULT_CONFIG
         (scripted [Resolves 503 (Inr [])] (Rejects ''AbortError'' ''The operation was aborted.''))
         0 new_service ''/api/search?query=a'')
     = Inl (NetworkError ''Request timeout'' (Some (OtherError ''AbortError'' ''The operation was aborted.'')))
   \<and> attempts (new_events new_service (snd (makeRequest DEFAULT_CONFIG
         (scripted [Resolves 503 (Inr [])] (Rejects ''AbortError'' ''The operation was aborted.''))
         0 new_service ''/api/search?query=a''))) = 2
   \<and> delays (new_events new_service (snd (makeRequest DEFAULT_CONFIG
         (scripted [Resolves 503 (Inr [])] (Rejects ''AbortError'' ''The operation was aborted.''))
         0 new_service ''/api/search?query=a''))) = [1000]"
  using timeout_not_retried [of 1 DEFAULT_CONFIG
              "scripted [Resolves 503 (Inr [])] (Rejects ''AbortError'' ''The operation was aborted.'')"
              "''The operation was aborted.''" 0 new_service "''/api/search?query=a''"]
  by (simp add: DEFAULT_CONFIG_def scripted_def)

text \<open>
  Claim C3. A response with a status from 400 to 499 ends the call: the call fails with the
  \<open>ApiResponseError\<close> of that response and no attempt follows it. When it answers the first
  attempt (\<open>k = 0\<close>), the call makes exactly one attempt and never waits to retry.
\<close>

theorem client_error_not_retried:
  assumes "k \<le> maxRetries cfg"
    and "\<forall>i < k. server_or_connection_failure (fetch pf i)"
    and "fetch pf k = Resolves st body" "400 \<le> st" "st \<le> 499"
  shows "fst (makeRequest cfg pf now svc endpoint) =
           Inl (ApiResponseError (''HTTP '' @ show_nat st @ '': Request failed'') st
                   (safelyParseErrorResponse pf body))
       \<and> attempts (new_events svc (snd (makeRequest cfg pf now svc endpoint))) = k + 1
       \<and> (k = 0 \<longrightarrow> delays (new_events svc (snd (makeRequest cfg pf now svc endpoint))) = [])"
proof -
  obtain le' where p:
    "fst (retry_loop cfg pf (baseUrl cfg @ endpoint) 0 None) = fst (retry_loop cfg pf (baseUrl cfg @ endpoint) k le')"
    "attempts (snd (retry_loop cfg pf (baseUrl cfg @ endpoint) 0 None))
       = (k - 0) + attempts (snd (retry_loop cfg pf (baseUrl cfg @ endpoint) k le'))"
    "delays (snd (retry_loop cfg pf (baseUrl cfg @ endpoint) 0 None)) =
       map (\<lambda>i. retryDelay cfg * 2 ^ i) [0..<k] @ delays (snd (retry_loop cfg pf (baseUrl cfg @ endpoint) k le'))"
    using retry_loop_prefix [OF assms(2) assms(1), of 0 "baseUrl cfg @ endpoint" None] by blast
  have "retry_loop cfg pf (baseUrl cfg @ endpoint) k le' =
           (Inl (ApiResponseError (''HTTP '' @ show_nat st @ '': Request failed'') st
                   (safelyParseErrorResponse pf body)),
            [FetchCall (baseUrl cfg @ endpoint) k])"
    using assms(1) assms(3-5) by (rule retry_loop_client_error)
  with p have "fst (retry_loop cfg pf (baseUrl cfg @ endpoint) 0 None) = Inl (ApiResponseError (''HTTP '' @ show_nat st @ '': Request failed'') st
                   (safelyParseErrorResponse pf body))"
    and "attempts (snd (retry_loop cfg pf (baseUrl cfg @ endpoint) 0 None)) = k + 1"
    and "delays (snd (retry_loop cfg pf (baseUrl cfg @ endpoint) 0 None))
           = map (\<lambda>i. retryDelay cfg * 2 ^ i) [0..<k]"
    by (simp_all add: attempts_def)
  then show ?thesis
    by (simp add: makeRequest_fst makeRequest_attempts makeRequest_delays)
qed

text \<open>A 404 on the first attempt; and a 429 after one refused connection.\<close>

theorem client_error_not_retried_witness:
  "fst (makeRequest DEFAULT_CONFIG (scripted [] (Resolves 404 (Inr ''{}''))) 0 new_service ''/api/songs/x'')
     = Inl (ApiResponseError ''HTTP 404: Request failed'' 404 (ParsedBody ()))
   \<and> attempts (new_events new_service (snd (makeRequest DEFAULT_CONFIG
         (scripted [] (Resolves 404 (Inr ''{}''))) 0 new_service ''/api/songs/x''))) = 1
   \<and> delays (new_events new_service (snd (makeRequest DEFAULT_CONFIG
         (scripted [] (Resolves 404 (Inr ''{}''))) 0 new_service ''/api/songs/x''))) = []
   \<and> attempts (new_events new_service (snd (makeRequest DEFAULT_CONFIG
         (scripted [Rejects ''TypeError'' ''Failed to fetch''] (Resolves 429 (Inr ''{}'')))
         0 new_service ''/api/songs/x''))) = 2"
proof -
  have s: "show_nat 404 = ''404''" by code_simp
  from client_error_not_retried [of 0 DEFAULT_CONFIG "scripted [] (Resolves 404 (Inr ''{}''))" 404 "Inr ''{}''"
              0 new_service "''/api/songs/x''"]
       client_error_not_retried [of 1 DEFAULT_CONFIG
              "scripted [Rejects ''TypeError'' ''Failed to fetch''] (Resolves 429 (Inr ''{}''))"
              429 "Inr ''{}''" 0 new_service "''/api/songs/x''"]
       s
  show ?thesis
    by (simp add: DEFAULT_CONFIG_def scripted_def safelyParseErrorResponse_def)
qed

lemma validate_rejects:
  assumes "trim query = [] \<or> length (trim query) > 100"
  shows "\<exists>m. validateAndSanitizeQuery pf query = Inl (ValidationError m)"
  using assms by (auto simp: validateAndSanitizeQuery_def Let_def)

text \<open>
  Claim C5. A query that is empty after trimming, or longer than 100 characters after
  trimming, makes each of the five search operations fail with a Validation error and
  leaves the service as it was: no wait, no network attempt, hence nothing to retry.
\<close>

theorem invalid_query_rejected_before_network:
  assumes "trim query = [] \<or> length (trim query) > 100"
  shows "(\<exists>m. search cfg pf now svc query = (Inl (ValidationError m), svc))
       \<and> (\<exists>m. searchSongs cfg pf now svc query page limit = (Inl (ValidationError m), svc))
       \<and> (\<exists>m. searchAlbums cfg pf now svc query page limit = (Inl (ValidationError m), svc))
       \<and> (\<exists>m. searchArtists cfg pf now svc query page limit = (Inl (ValidationError m), svc))
       \<and> (\<exists>m. searchPlaylists cfg pf now svc query page limit = (Inl (ValidationError m), svc))
       \<and> attempts (new_events svc svc) = 0"
proof -
  obtain m where "validateAndSanitizeQuery pf query = Inl (ValidationError m)"
    using validate_rejects [OF assms] by blast
  then show ?thesis
    by (simp add: search_def searchSongs_def searchAlbums_def searchArtists_def
        searchPlaylists_def Let_def new_events_def attempts_def)
qed

text \<open>A query of three spaces, and a query of 101 letters.\<close>

theorem invalid_query_rejected_before_network_witness:
  "trim ''   '' = []
   \<and> search DEFAULT_CONFIG (scripted [] (Resolves 200 (Inr ''{}''))) 0 new_service ''   ''
       = (Inl (ValidationError ''Query parameter cannot be empty''), new_service)
   \<and> 100 < length (trim (replicate 101 CHR ''a''))
   \<and> searchSongs DEFAULT_CONFIG (scripted [] (Resolves 200 (Inr ''{}''))) 0 new_service
        (replicate 101 CHR ''a'') None None
       = (Inl (ValidationError ''Query parameter too long (max 100 characters)''), new_service)"
proof -
  have h1: "trim ''   '' = [] \<or> length (trim ''   '') > 100"
    by (simp add: trim_def is_space_def)
  have h2: "trim (replicate 101 CHR ''a'') = [] \<or> length (trim (replicate 101 CHR ''a'')) > 100"
    by code_simp
  have e1: "validateAndSanitizeQuery (scripted [] (Resolves 200 (Inr ''{}''))) ''   ''
              = Inl (ValidationError ''Query parameter cannot be empty'')"
    by code_simp
  have e2: "validateAndSanitizeQuery (scripted [] (Resolves 200 (Inr ''{}''))) (replicate 101 CHR ''a'')
              = Inl (ValidationError ''Query parameter too long (max 100 characters)'')"
    by code_simp
  have t1: "trim ''   '' = []" by (simp add: trim_def is_space_def)
  have t2: "100 < length (trim (replicate 101 CHR ''a''))" by code_simp
  from invalid_query_rejected_before_network [OF h1, of DEFAULT_CONFIG "scripted [] (Resolves 200 (Inr ''{}''))" 0 new_service None None]
       invalid_query_rejected_before_network [OF h2, of DEFAULT_CONFIG "scripted [] (Resolves 200 (Inr ''{}''))" 0 new_service None None]
       e1 e2 t1 t2
  show ?thesis
    by (simp add: search_def searchSongs_def)
qed

lemma retried_response_attempt:
  assumes "retried_response (fetch pf i)"
  shows "\<exists>e. try_attempt pf i = Inl e \<and> \<not> no_retry e \<and> error_name e \<noteq> ''AbortError''"
proof (cases "fetch pf i")
  case (Rejects n m)
  with assms show ?thesis by simp
next
  case (Resolves st body)
  with assms have "\<not> ok st" "\<not> (400 \<le> st \<and> st \<le> 499)" by simp_all
  with Resolves show ?thesis by (auto simp: try_attempt_def)
qed

lemma retry_loop_skip_retried:
  assumes "\<forall>i < k. retried_response (fetch pf i)" "k \<le> maxRetries cfg + 1"
  shows "a \<le> k \<Longrightarrow> \<exists>le'. fst (retry_loop cfg pf url a le) = fst (retry_loop cfg pf url k le')"
proof (induction "k - a" arbitrary: a le)
  case 0
  then have "a = k" by simp
  then show ?case by auto
next
  case (Suc n)
  then have lt: "a < k" by simp
  with assms(2) have le: "a \<le> maxRetries cfg" by simp
  from lt assms(1) obtain e where e: "try_attempt pf a = Inl e" "\<not> no_retry e" "error_name e \<noteq> ''AbortError''"
    using retried_response_attempt by blast
  have step: "retry_loop cfg pf url a le =
           (fst (retry_loop cfg pf url (a + 1) (Some e)),
            FetchCall url a # (if a < maxRetries cfg then [BackoffWait (retryDelay cfg * 2 ^ a)] else [])
              @ snd (retry_loop cfg pf url (a + 1) (Some e)))"
    using le e by (rule retry_loop_retry)
  have n: "n = k - (a + 1)" using Suc.hyps(2) by simp
  have bound: "a + 1 \<le> k" using lt by simp
  from Suc.hyps(1) [OF n bound, of "Some e"] obtain le' where
    "fst (retry_loop cfg pf url (a + 1) (Some e)) = fst (retry_loop cfg pf url k le')" by blast
  with step show ?case by auto
qed

lemma makeRequest_non_2xx:
  assumes "\<forall>i < k. retried_response (fetch pf i)"
    and "k \<le> maxRetries cfg + 1"
    and "k \<le> maxRetries cfg \<longrightarrow> fetch pf k = Resolves st body \<and> 400 \<le> st \<and> st \<le> 499"
    and "txt = (if k \<le> maxRetries cfg then ''HTTP '' @ show_nat st @ '': Request failed''
                else ''Failed to complete request after '' @ show_nat (maxRetries cfg + 1) @ '' attempts'')"
    and "makeRequest cfg pf now svc ep = (res, svc')"
  shows "\<exists>e. res = Inl e \<and> message e = txt"
proof -
  obtain le' where skip:
    "fst (retry_loop cfg pf (baseUrl cfg @ ep) 0 None) = fst (retry_loop cfg pf (baseUrl cfg @ ep) k le')"
    using retry_loop_skip_retried [OF assms(1) assms(2), of 0 "baseUrl cfg @ ep" None] by blast
  have res: "res = fst (retry_loop cfg pf (baseUrl cfg @ ep) 0 None)"
    using assms(5) makeRequest_fst [of cfg pf now svc ep] by simp
  show ?thesis
  proof (cases "k \<le> maxRetries cfg")
    case True
    with assms(3) have "retry_loop cfg pf (baseUrl cfg @ ep) k le' =
           (Inl (ApiResponseError (''HTTP '' @ show_nat st @ '': Request failed'') st
                   (safelyParseErrorResponse pf body)), [FetchCall (baseUrl cfg @ ep) k])"
      by (intro retry_loop_client_error) simp_all
    with skip res True assms(4) show ?thesis by simp
  next
    case False
    then have "maxRetries cfg < k" by simp
    then have "retry_loop cfg pf (baseUrl cfg @ ep) k le' =
     (Inl (NetworkError (''Failed to complete request after '' @ show_nat (maxRetries cfg + 1) @ '' attempts'') le'), [])"
      by (rule retry_loop_exhausted)
    with skip res False assms(4) show ?thesis by simp
  qed
qed

lemma search_surfaces:
  assumes "validateAndSanitizeQuery pf query = Inr sq"
    and "\<And>ep res svc'. makeRequest cfg pf now svc ep = (res, svc') \<Longrightarrow> \<exists>e. res = Inl e \<and> message e = txt"
  shows "fst (search cfg pf now svc query) =
           Inl (SaavnApiError (''Search failed for query: '' @ query) ''search''
                  [(''query'', CStr query), (''error'', CStr txt)])"
  using assms(1)
  by (auto simp: search_def Let_def split: prod.splits sum.splits dest!: assms(2))

lemma searchSongs_surfaces:
  assumes "validateAndSanitizeQuery pf query = Inr sq"
    and "\<And>ep res svc'. makeRequest cfg pf now svc ep = (res, svc') \<Longrightarrow> \<exists>e. res = Inl e \<and> message e = txt"
  shows "fst (searchSongs cfg pf now svc query page limit) =
           Inl (SaavnApiError (''Song search failed for query: '' @ query) ''searchSongs''
                  [(''query'', CStr query), (''page'', CNum (case page of Some p \<Rightarrow> p | None \<Rightarrow> 0)),
                   (''limit'', CNum (case limit of Some l \<Rightarrow> l | None \<Rightarrow> 10)), (''error'', CStr txt)])"
  using assms(1)
  by (auto simp: searchSongs_def paged_context_def Let_def split: prod.splits sum.splits dest!: assms(2))

lemma searchAlbums_surfaces:
  assumes "validateAndSanitizeQuery pf query = Inr sq"
    and "\<And>ep res svc'. makeRequest cfg pf now svc ep = (res, svc') \<Longrightarrow> \<exists>e. res = Inl e \<and> message e = txt"
  shows "fst (searchAlbums cfg pf now svc query page limit) =
           Inl (SaavnApiError (''Album search failed for query: '' @ query) ''searchAlbums''
                  [(''query'', CStr query), (''page'', CNum (case page of Some p \<Rightarrow> p | None \<Rightarrow> 0)),
                   (''limit'', CNum (case limit of Some l \<Rightarrow> l | None \<Rightarrow> 10)), (''error'', CStr txt)])"
  using assms(1)
  by (auto simp: searchAlbums_def paged_context_def Let_def split: prod.splits sum.splits dest!: assms(2))

lemma searchArtists_surfaces:
  assumes "validateAndSanitizeQuery pf query = Inr sq"
    and "\<And>ep res svc'. makeRequest cfg pf now svc ep = (res, svc') \<Longrightarrow> \<exists>e. res = Inl e \<and> message e = txt"
  shows "fst (searchArtists cfg pf now svc query page limit) =
           Inl (SaavnApiError (''Artist search failed for query: '' @ query) ''searchArtists''
                  [(''query'', CStr query), (''page'', CNum (case page of Some p \<Rightarrow> p | None \<Rightarrow> 0)),
                   (''limit'', CNum (case limit of Some l \<Rightarrow> l | None \<Rightarrow> 10)), (''error'', CStr txt)])"
  using assms(1)
  by (auto simp: searchArtists_def paged_context_def Let_def split: prod.splits sum.splits dest!: assms(2))

lemma searchPlaylists_surfaces:
  assumes "validateAndSanitizeQuery pf query = Inr sq"
    and "\<And>ep res svc'. makeRequest cfg pf now svc ep = (res, svc') \<Longrightarrow> \<exists>e. res = Inl e \<and> message e = txt"
  shows "fst (searchPlaylists cfg pf now svc query page limit) =
           Inl (SaavnApiError (''Playlist search failed for query: '' @ query) ''searchPlaylists''
                  [(''query'', CStr query), (''page'', CNum (case page of Some p \<Rightarrow> p | None \<Rightarrow> 0)),
                   (''limit'', CNum (case limit of Some l \<Rightarrow> l | None \<Rightarrow> 10)), (''error'', CStr txt)])"
  using assms(1)
  by (auto simp: searchPlaylists_def paged_context_def Let_def split: prod.splits sum.splits dest!: assms(2))

lemma getSongs_surfaces:
  assumes "ids \<noteq> []"
    and "\<And>ep res svc'. makeRequest cfg pf now svc ep = (res, svc') \<Longrightarrow> \<exists>e. res = Inl e \<and> message e = txt"
  shows "fst (getSongs cfg pf now svc ids) =
           Inl (SaavnApiError (''Failed to fetch songs with IDs: '' @ join_with '','' ids) ''getSongs''
                  [(''ids'', CList ids), (''error'', CStr txt)])"
  using assms(1)
  by (auto simp: getSongs_def Let_def split: prod.splits sum.splits dest!: assms(2))

lemma getSong_surfaces:
  assumes "ident \<noteq> []"
    and "\<And>ep res svc'. makeRequest cfg pf now svc ep = (res, svc') \<Longrightarrow> \<exists>e. res = Inl e \<and> message e = txt"
  shows "fst (getSong cfg pf now svc ident) =
           Inl (SaavnApiError (''Failed to fetch song with ID: '' @ ident) ''getSong''
                  [(''id'', CStr ident), (''error'', CStr txt)])"
  using assms(1)
  by (auto simp: getSong_def Let_def split: prod.splits sum.splits dest!: assms(2))

lemma getSongSuggestions_surfaces:
  assumes "ident \<noteq> []"
    and "\<And>ep res svc'. makeRequest cfg pf now svc ep = (res, svc') \<Longrightarrow> \<exists>e. res = Inl e \<and> message e = txt"
  shows "fst (getSongSuggestions cfg pf now svc ident limit) =
           Inl (SaavnApiError (''Failed to fetch suggestions for song ID: '' @ ident) ''getSongSuggestions''
                  [(''id'', CStr ident), (''limit'', CNum (case limit of Some l \<Rightarrow> l | None \<Rightarrow> 10)), (''error'', CStr txt)])"
  using assms(1)
  by (auto simp: getSongSuggestions_def Let_def split: prod.splits sum.splits dest!: assms(2))

lemma getAlbum_surfaces:
  assumes "aid \<noteq> [] \<or> truthy_str link"
    and "\<And>ep res svc'. makeRequest cfg pf now svc ep = (res, svc') \<Longrightarrow> \<exists>e. res = Inl e \<and> message e = txt"
  shows "fst (getAlbum cfg pf now svc aid link) =
           Inl (SaavnApiError ''Failed to fetch album'' ''getAlbum''
                  [(''id'', CStr aid), (''link'', ctx_opt_str link), (''error'', CStr txt)])"
  using assms(1)
  by (auto simp: getAlbum_def Let_def split: prod.splits sum.splits dest!: assms(2))

lemma getArtist_surfaces:
  assumes "aid \<noteq> [] \<or> truthy_str link"
    and "\<And>ep res svc'. makeRequest cfg pf now svc ep = (res, svc') \<Longrightarrow> \<exists>e. res = Inl e \<and> message e = txt"
  shows "fst (getArtist cfg pf now svc aid options link) =
           Inl (SaavnApiError ''Failed to fetch artist'' ''getArtist''
                  [(''id'', CStr aid), (''link'', ctx_opt_str link), (''options'', ctx_options options),
                   (''error'', CStr txt)])"
  using assms(1)
  by (auto simp: getArtist_def Let_def split: prod.splits sum.splits dest!: assms(2))

lemma getArtistById_surfaces:
  assumes "ident \<noteq> []"
    and "\<And>ep res svc'. makeRequest cfg pf now svc ep = (res, svc') \<Longrightarrow> \<exists>e. res = Inl e \<and> message e = txt"
  shows "fst (getArtistById cfg pf now svc ident page songCount albumCount sortBy sortOrder) =
           Inl (SaavnApiError (''Failed to fetch artist with ID: '' @ ident) ''getArtistById''
                  [(''id'', CStr ident), (''page'', CNum (case page of Some p \<Rightarrow> p | None \<Rightarrow> 0)),
                   (''songCount'', CNum (case songCount of Some n \<Rightarrow> n | None \<Rightarrow> 10)),
                   (''albumCount'', CNum (case albumCount of Some n \<Rightarrow> n | None \<Rightarrow> 10)),
                   (''sortBy'', CStr (sortBy_text (case sortBy of Some b \<Rightarrow> b | None \<Rightarrow> Popularity))),
                   (''sortOrder'', CStr (sortOrder_text (case sortOrder of Some d \<Rightarrow> d | None \<Rightarrow> Desc))),
                   (''error'', CStr txt)])"
  using assms(1)
  by (auto simp: getArtistById_def Let_def split: prod.splits sum.splits dest!: assms(2))

lemma getArtistSongs_surfaces:
  assumes "ident \<noteq> []"
    and "\<And>ep res svc'. makeRequest cfg pf now svc ep = (res, svc') \<Longrightarrow> \<exists>e. res = Inl e \<and> message e = txt"
  shows "fst (getArtistSongs cfg pf now svc ident page sortBy sortOrder) =
           Inl (SaavnApiError (''Failed to fetch songs for artist ID: '' @ ident) ''getArtistSongs''
                  [(''id'', CStr ident), (''page'', CNum (case page of Some p \<Rightarrow> p | None \<Rightarrow> 0)),
                   (''sortBy'', CStr (sortBy_text (case sortBy of Some b \<Rightarrow> b | None \<Rightarrow> Popularity))),
                   (''sortOrder'', CStr (sortOrder_text (case sortOrder of Some d \<Rightarrow> d | None \<Rightarrow> Desc))),
                   (''error'', CStr txt)])"
  using assms(1)
  by (auto simp: getArtistSongs_def Let_def split: prod.splits sum.splits dest!: assms(2))

lemma getArtistAlbums_surfaces:
  assumes "ident \<noteq> []"
    and "\<And>ep res svc'. makeRequest cfg pf now svc ep = (res, svc') \<Longrightarrow> \<exists>e. res = Inl e \<and> message e = txt"
  shows "fst (getArtistAlbums cfg pf now svc ident page sortBy sortOrder) =
           Inl (SaavnApiError (''Failed to fetch albums for artist ID: '' @ ident) ''getArtistAlbums''
                  [(''id'', CStr ident), (''page'', CNum (case page of Some p \<Rightarrow> p | None \<Rightarrow> 0)),
                   (''sortBy'', CStr (sortBy_text (case sortBy of Some b \<Rightarrow> b | None \<Rightarrow> Popularity))),
                   (''sortOrder'', CStr (sortOrder_text (case sortOrder of Some d \<Rightarrow> d | None \<Rightarrow> Desc))),
                   (''error'', CStr txt)])"
  using assms(1)
  by (auto simp: getArtistAlbums_def Let_def split: prod.splits sum.splits dest!: assms(2))

lemma getPlaylist_surfaces:
  assumes "aid \<noteq> [] \<or> truthy_str link"
    and "\<And>ep res svc'. makeRequest cfg pf now svc ep = (res, svc') \<Longrightarrow> \<exists>e. res = Inl e \<and> message e = txt"
  shows "fst (getPlaylist cfg pf now svc aid link page limit) =
           Inl (SaavnApiError ''Failed to fetch playlist'' ''getPlaylist''
                  [(''id'', CStr aid), (''link'', ctx_opt_str link), (''page'', CNum (case page of Some p \<Rightarrow> p | None \<Rightarrow> 0)),
                   (''limit'', CNum (case limit of Some l \<Rightarrow> l | None \<Rightarrow> 10)), (''error'', CStr txt)])"
  using assms(1)
  by (auto simp: getPlaylist_def Let_def split: prod.splits sum.splits dest!: assms(2))

lemma non_2xx_failure_cases:
  assumes "\<forall>j \<le> maxRetries cfg. \<exists>s b. fetch pf j = Resolves s b \<and> \<not> ok s"
  shows "\<exists>k' s' b'. (\<forall>i < k'. retried_response (fetch pf i)) \<and> k' \<le> maxRetries cfg + 1
            \<and> (k' \<le> maxRetries cfg \<longrightarrow> fetch pf k' = Resolves s' b' \<and> 400 \<le> s' \<and> s' \<le> 499)"
proof (cases "\<exists>j \<le> maxRetries cfg. \<exists>s b. fetch pf j = Resolves s b \<and> 400 \<le> s \<and> s \<le> 499")
  case True
  define P where "P j \<longleftrightarrow> j \<le> maxRetries cfg \<and> (\<exists>s b. fetch pf j = Resolves s b \<and> 400 \<le> s \<and> s \<le> 499)" for j
  from True have "\<exists>j. P j" by (auto simp: P_def)
  then obtain k' where k': "P k'" "\<forall>i < k'. \<not> P i"
    using exists_least_iff [of P] by blast
  from k'(1) obtain s' b' where sb: "k' \<le> maxRetries cfg" "fetch pf k' = Resolves s' b'" "400 \<le> s'" "s' \<le> 499"
    by (auto simp: P_def)
  have "\<forall>i < k'. retried_response (fetch pf i)"
  proof (intro allI impI)
    fix i assume i: "i < k'"
    with sb(1) have im: "i \<le> maxRetries cfg" by simp
    with assms obtain s b where r: "fetch pf i = Resolves s b" "\<not> ok s" by blast
    from k'(2) i im r(1) have "\<not> (400 \<le> s \<and> s \<le> 499)" by (auto simp: P_def)
    with r show "retried_response (fetch pf i)" by simp
  qed
  with sb show ?thesis by auto
next
  case False
  have "\<forall>i < maxRetries cfg + 1. retried_response (fetch pf i)"
  proof (intro allI impI)
    fix i assume "i < maxRetries cfg + 1"
    then have im: "i \<le> maxRetries cfg" by simp
    with assms obtain s b where r: "fetch pf i = Resolves s b" "\<not> ok s" by blast
    from False im r(1) have "\<not> (400 \<le> s \<and> s \<le> 499)" by auto
    with r show "retried_response (fetch pf i)" by simp
  qed
  then show ?thesis by (intro exI [of _ "maxRetries cfg + 1"]) simp
qed

text \<open>
  Claim C9, as stated, fails: when the server answers 404, \<open>search\<close> surfaces a
  \<open>SaavnApiError\<close>, which has no status code and whose user message is the same for every
  status, not the not-found guidance of an \<open>ApiResponseError\<close> with status 404.
\<close>

theorem surfaced_error_counterexample:
  "fst (search DEFAULT_CONFIG (scripted [] (Resolves 404 (Inr ''{}''))) 0 new_service ''abc'')
     = Inl (SaavnApiError ''Search failed for query: abc'' ''search''
              [(''query'', CStr ''abc''), (''error'', CStr ''HTTP 404: Request failed'')])
   \<and> statusCode (SaavnApiError ''Search failed for query: abc'' ''search''
              [(''query'', CStr ''abc''), (''error'', CStr ''HTTP 404: Request failed'')] :: unit js_error) = None
   \<and> getUserMessage (SaavnApiError ''Search failed for query: abc'' ''search''
              [(''query'', CStr ''abc''), (''error'', CStr ''HTTP 404: Request failed'')] :: unit js_error)
       = Some ''API request failed. Please try again.''
   \<and> hook_error_message (SaavnApiError ''Search failed for query: abc'' ''search''
              [(''query'', CStr ''abc''), (''error'', CStr ''HTTP 404: Request failed'')] :: unit js_error)
       = ''API request failed. Please try again.''
   \<and> getUserMessage (ApiResponseError ''HTTP 404: Request failed'' 404 (ParsedBody ()) :: unit js_error)
       = Some ''Content not found. Please check your search terms.''"
  by code_simp

text \<open>
  Claim C9, amended. When a catalog operation terminally fails because of responses with a
  status outside 200..299, the error surfaced to the caller is a \<open>SaavnApiError\<close> naming the
  operation, not an \<open>ApiResponseError\<close>. It carries no status code, and its user message is
  \<open>API request failed. Please try again.\<close> for every status. What survives of the response
  is the message of the inner error, kept in the context: \<open>HTTP st: Request failed\<close> when a
  4xx response with status \<open>st\<close> ends the call, at attempt \<open>k\<close>, after \<open>k\<close> retried responses;
  \<open>Failed to complete request after N attempts\<close> when all \<open>maxRetries + 1\<close> responses are
  retried (\<open>k = maxRetries + 1\<close>). This holds for each of the fourteen operations, on inputs
  that pass its validation. The last conjunct says that one of the two cases applies
  whenever every attempt is answered with a status outside 200..299.
\<close>

theorem catalog_failure_is_wrapped:
  assumes "\<forall>i < k. retried_response (fetch pf i)"
    and "k \<le> maxRetries cfg + 1"
    and "k \<le> maxRetries cfg \<longrightarrow> fetch pf k = Resolves st body \<and> 400 \<le> st \<and> st \<le> 499"
    and "txt = (if k \<le> maxRetries cfg then ''HTTP '' @ show_nat st @ '': Request failed''
                else ''Failed to complete request after '' @ show_nat (maxRetries cfg + 1) @ '' attempts'')"
    and "validateAndSanitizeQuery pf query = Inr sq"
    and "ids \<noteq> []"
    and "ident \<noteq> []"
    and "aid \<noteq> [] \<or> truthy_str link"
  shows "fst (search cfg pf now svc query) =
               Inl (SaavnApiError (''Search failed for query: '' @ query) ''search''
                      [(''query'', CStr query), (''error'', CStr txt)])
       \<and> fst (searchSongs cfg pf now svc query page limit) =
               Inl (SaavnApiError (''Song search failed for query: '' @ query) ''searchSongs''
                      [(''query'', CStr query), (''page'', CNum (case page of Some p \<Rightarrow> p | None \<Rightarrow> 0)),
                       (''limit'', CNum (case limit of Some l \<Rightarrow> l | None \<Rightarrow> 10)), (''error'', CStr txt)])
       \<and> fst (searchAlbums cfg pf now svc query page limit) =
               Inl (SaavnApiError (''Album search failed for query: '' @ query) ''searchAlbums''
                      [(''query'', CStr query), (''page'', CNum (case page of Some p \<Rightarrow> p | None \<Rightarrow> 0)),
                       (''limit'', CNum (case limit of Some l \<Rightarrow> l | None \<Rightarrow> 10)), (''error'', CStr txt)])
       \<and> fst (searchArtists cfg pf now svc query page limit) =
               Inl (SaavnApiError (''Artist search failed for query: '' @ query) ''searchArtists''
                      [(''query'', CStr query), (''page'', CNum (case page of Some p \<Rightarrow> p | None \<Rightarrow> 0)),
                       (''limit'', CNum (case limit of Some l \<Rightarrow> l | None \<Rightarrow> 10)), (''error'', CStr txt)])
       \<and> fst (searchPlaylists cfg pf now svc query page limit) =
               Inl (SaavnApiError (''Playlist search failed for query: '' @ query) ''searchPlaylists''
                      [(''query'', CStr query), (''page'', CNum (case page of Some p \<Rightarrow> p | None \<Rightarrow> 0)),
                       (''limit'', CNum (case limit of Some l \<Rightarrow> l | None \<Rightarrow> 10)), (''error'', CStr txt)])
       \<and> fst (getSongs cfg pf now svc ids) =
               Inl (SaavnApiError (''Failed to fetch songs with IDs: '' @ join_with '','' ids) ''getSongs''
                      [(''ids'', CList ids), (''error'', CStr txt)])
       \<and> fst (getSong cfg pf now svc ident) =
               Inl (SaavnApiError (''Failed to fetch song with ID: '' @ ident) ''getSong''
                      [(''id'', CStr ident), (''error'', CStr txt)])
       \<and> fst (getSongSuggestions cfg pf now svc ident limit) =
               Inl (SaavnApiError (''Failed to fetch suggestions for song ID: '' @ ident) ''getSongSuggestions''
                      [(''id'', CStr ident), (''limit'', CNum (case limit of Some l \<Rightarrow> l | None \<Rightarrow> 10)), (''error'', CStr txt)])
       \<and> fst (getAlbum cfg pf now svc aid link) =
               Inl (SaavnApiError ''Failed to fetch album'' ''getAlbum''
                      [(''id'', CStr aid), (''link'', ctx_opt_str link), (''error'', CStr txt)])
       \<and> fst (getArtist cfg pf now svc aid options link) =
               Inl (SaavnApiError ''Failed to fetch artist'' ''getArtist''
                      [(''id'', CStr aid), (''link'', ctx_opt_str link), (''options'', ctx_options options),
                       (''error'', CStr txt)])
       \<and> fst (getArtistById cfg pf now svc ident page songCount albumCount sortBy sortOrder) =
               Inl (SaavnApiError (''Failed to fetch artist with ID: '' @ ident) ''getArtistById''
                      [(''id'', CStr ident), (''page'', CNum (case page of Some p \<Rightarrow> p | None \<Rightarrow> 0)),
                       (''songCount'', CNum (case songCount of Some n \<Rightarrow> n | None \<Rightarrow> 10)),
                       (''albumCount'', CNum (case albumCount of Some n \<Rightarrow> n | None \<Rightarrow> 10)),
                       (''sortBy'', CStr (sortBy_text (case sortBy of Some b \<Rightarrow> b | None \<Rightarrow> Popularity))),
                       (''sortOrder'', CStr (sortOrder_text (case sortOrder of Some d \<Rightarrow> d | None \<Rightarrow> Desc))),
                       (''error'', CStr txt)])
       \<and> fst (getArtistSongs cfg pf now svc ident page sortBy sortOrder) =
               Inl (SaavnApiError (''Failed to fetch songs for artist ID: '' @ ident) ''getArtistSongs''
                      [(''id'', CStr ident), (''page'', CNum (case page of Some p \<Rightarrow> p | None \<Rightarrow> 0)),
                       (''sortBy'', CStr (sortBy_text (case sortBy of Some b \<Rightarrow> b | None \<Rightarrow> Popularity))),
                       (''sortOrder'', CStr (sortOrder_text (case sortOrder of Some d \<Rightarrow> d | None \<Rightarrow> Desc))),
                       (''error'', CStr txt)])
       \<and> fst (getArtistAlbums cfg pf now svc ident page sortBy sortOrder) =
               Inl (SaavnApiError (''Failed to fetch albums for artist ID: '' @ ident) ''getArtistAlbums''
                      [(''id'', CStr ident), (''page'', CNum (case page of Some p \<Rightarrow> p | None \<Rightarrow> 0)),
                       (''sortBy'', CStr (sortBy_text (case sortBy of Some b \<Rightarrow> b | None \<Rightarrow> Popularity))),
                       (''sortOrder'', CStr (sortOrder_text (case sortOrder of Some d \<Rightarrow> d | None \<Rightarrow> Desc))),
                       (''error'', CStr txt)])
       \<and> fst (getPlaylist cfg pf now svc aid link page limit) =
               Inl (SaavnApiError ''Failed to fetch playlist'' ''getPlaylist''
                      [(''id'', CStr aid), (''link'', ctx_opt_str link), (''page'', CNum (case page of Some p \<Rightarrow> p | None \<Rightarrow> 0)),
                       (''limit'', CNum (case limit of Some l \<Rightarrow> l | None \<Rightarrow> 10)), (''error'', CStr txt)])
       \<and> (\<forall>m opn ctx. getUserMessage (SaavnApiError m opn ctx :: 'j js_error)
                          = Some ''API request failed. Please try again.''
                      \<and> hook_error_message (SaavnApiError m opn ctx :: 'j js_error)
                          = ''API request failed. Please try again.''
                      \<and> statusCode (SaavnApiError m opn ctx :: 'j js_error) = None)
       \<and> ((\<forall>j \<le> maxRetries cfg. \<exists>s b. fetch pf j = Resolves s b \<and> \<not> ok s) \<longrightarrow>
            (\<exists>k' s' b'. (\<forall>i < k'. retried_response (fetch pf i)) \<and> k' \<le> maxRetries cfg + 1
               \<and> (k' \<le> maxRetries cfg \<longrightarrow> fetch pf k' = Resolves s' b' \<and> 400 \<le> s' \<and> s' \<le> 499)))"
proof -
  have inner: "\<And>ep res svc'. makeRequest cfg pf now svc ep = (res, svc')
                 \<Longrightarrow> \<exists>e. res = Inl e \<and> message e = txt"
    using assms(1-4) by (rule makeRequest_non_2xx)
  have c1: "fst (search cfg pf now svc query) =
           Inl (SaavnApiError (''Search failed for query: '' @ query) ''search''
                  [(''query'', CStr query), (''error'', CStr txt)])"
    using assms(5) inner by (rule search_surfaces)
  have c2: "fst (searchSongs cfg pf now svc query page limit) =
           Inl (SaavnApiError (''Song search failed for query: '' @ query) ''searchSongs''
                  [(''query'', CStr query), (''page'', CNum (case page of Some p \<Rightarrow> p | None \<Rightarrow> 0)),
                   (''limit'', CNum (case limit of Some l \<Rightarrow> l | None \<Rightarrow> 10)), (''error'', CStr txt)])"
    using assms(5) inner by (rule searchSongs_surfaces)
  have c3: "fst (searchAlbums cfg pf now svc query page limit) =
           Inl (SaavnApiError (''Album search failed for query: '' @ query) ''searchAlbums''
                  [(''query'', CStr query), (''page'', CNum (case page of Some p \<Rightarrow> p | None \<Rightarrow> 0)),
                   (''limit'', CNum (case limit of Some l \<Rightarrow> l | None \<Rightarrow> 10)), (''error'', CStr txt)])"
    using assms(5) inner by (rule searchAlbums_surfaces)
  have c4: "fst (searchArtists cfg pf now svc query page limit) =
           Inl (SaavnApiError (''Artist search failed for query: '' @ query) ''searchArtists''
                  [(''query'', CStr query), (''page'', CNum (case page of Some p \<Rightarrow> p | None \<Rightarrow> 0)),
                   (''limit'', CNum (case limit of Some l \<Rightarrow> l | None \<Rightarrow> 10)), (''error'', CStr txt)])"
    using assms(5) inner by (rule searchArtists_surfaces)
  have c5: "fst (searchPlaylists cfg pf now svc query page limit) =
           Inl (SaavnApiError (''Playlist search failed for query: '' @ query) ''searchPlaylists''
                  [(''query'', CStr query), (''page'', CNum (case page of Some p \<Rightarrow> p | None \<Rightarrow> 0)),
                   (''limit'', CNum (case limit of Some l \<Rightarrow> l | None \<Rightarrow> 10)), (''error'', CStr txt)])"
    using assms(5) inner by (rule searchPlaylists_surfaces)
  have c6: "fst (getSongs cfg pf now svc ids) =
           Inl (SaavnApiError (''Failed to fetch songs with IDs: '' @ join_with '','' ids) ''getSongs''
                  [(''ids'', CList ids), (''error'', CStr txt)])"
    using assms(6) inner by (rule getSongs_surfaces)
  have c7: "fst (getSong cfg pf now svc ident) =
           Inl (SaavnApiError (''Failed to fetch song with ID: '' @ ident) ''getSong''
                  [(''id'', CStr ident), (''error'', CStr txt)])"
    using assms(7) inner by (rule getSong_surfaces)
  have c8: "fst (getSongSuggestions cfg pf now svc ident limit) =
           Inl (SaavnApiError (''Failed to fetch suggestions for song ID: '' @ ident) ''getSongSuggestions''
                  [(''id'', CStr ident), (''limit'', CNum (case limit of Some l \<Rightarrow> l | None \<Rightarrow> 10)), (''error'', CStr txt)])"
    using assms(7) inner by (rule getSongSuggestions_surfaces)
  have c9: "fst (getAlbum cfg pf now svc aid link) =
           Inl (SaavnApiError ''Failed to fetch album'' ''getAlbum''
                  [(''id'', CStr aid), (''link'', ctx_opt_str link), (''error'', CStr txt)])"
    using assms(8) inner by (rule getAlbum_surfaces)
  have c10: "fst (getArtist cfg pf now svc aid options link) =
           Inl (SaavnApiError ''Failed to fetch artist'' ''getArtist''
                  [(''id'', CStr aid), (''link'', ctx_opt_str link), (''options'', ctx_options options),
                   (''error'', CStr txt)])"
    using assms(8) inner by (rule getArtist_surfaces)
  have c11: "fst (getArtistById cfg pf now svc ident page songCount albumCount sortBy sortOrder) =
           Inl (SaavnApiError (''Failed to fetch artist with ID: '' @ ident) ''getArtistById''
                  [(''id'', CStr ident), (''page'', CNum (case page of Some p \<Rightarrow> p | None \<Rightarrow> 0)),
                   (''songCount'', CNum (case songCount of Some n \<Rightarrow> n | None \<Rightarrow> 10)),
                   (''albumCount'', CNum (case albumCount of Some n \<Rightarrow> n | None \<Rightarrow> 10)),
                   (''sortBy'', CStr (sortBy_text (case sortBy of Some b \<Rightarrow> b | None \<Rightarrow> Popularity))),
                   (''sortOrder'', CStr (sortOrder_text (case sortOrder of Some d \<Rightarrow> d | None \<Rightarrow> Desc))),
                   (''error'', CStr txt)])"
    using assms(7) inner by (rule getArtistById_surfaces)
  have c12: "fst (getArtistSongs cfg pf now svc ident page sortBy sortOrder) =
           Inl (SaavnApiError (''Failed to fetch songs for artist ID: '' @ ident) ''getArtistSongs''
                  [(''id'', CStr ident), (''page'', CNum (case page of Some p \<Rightarrow> p | None \<Rightarrow> 0)),
                   (''sortBy'', CStr (sortBy_text (case sortBy of Some b \<Rightarrow> b | None \<Rightarrow> Popularity))),
                   (''sortOrder'', CStr (sortOrder_text (case sortOrder of Some d \<Rightarrow> d | None \<Rightarrow> Desc))),
                   (''error'', CStr txt)])"
    using assms(7) inner by (rule getArtistSongs_surfaces)
  have c13: "fst (getArtistAlbums cfg pf now svc ident page sortBy sortOrder) =
           Inl (SaavnApiError (''Failed to fetch albums for artist ID: '' @ ident) ''getArtistAlbums''
                  [(''id'', CStr ident), (''page'', CNum (case page of Some p \<Rightarrow> p | None \<Rightarrow> 0)),
                   (''sortBy'', CStr (sortBy_text (case sortBy of Some b \<Rightarrow> b | None \<Rightarrow> Popularity))),
                   (''sortOrder'', CStr (sortOrder_text (case sortOrder of Some d \<Rightarrow> d | None \<Rightarrow> Desc))),
                   (''error'', CStr txt)])"
    using assms(7) inner by (rule getArtistAlbums_surfaces)
  have c14: "fst (getPlaylist cfg pf now svc aid link page limit) =
           Inl (SaavnApiError ''Failed to fetch playlist'' ''getPlaylist''
                  [(''id'', CStr aid), (''link'', ctx_opt_str link), (''page'', CNum (case page of Some p \<Rightarrow> p | None \<Rightarrow> 0)),
                   (''limit'', CNum (case limit of Some l \<Rightarrow> l | None \<Rightarrow> 10)), (''error'', CStr txt)])"
    using assms(8) inner by (rule getPlaylist_surfaces)
  have msg: "\<forall>m opn ctx. getUserMessage (SaavnApiError m opn ctx :: 'j js_error)
                          = Some ''API request failed. Please try again.''
                      \<and> hook_error_message (SaavnApiError m opn ctx :: 'j js_error)
                          = ''API request failed. Please try again.''
                      \<and> statusCode (SaavnApiError m opn ctx :: 'j js_error) = None"
    by (simp add: hook_error_message_def)
  have cover: "(\<forall>j \<le> maxRetries cfg. \<exists>s b. fetch pf j = Resolves s b \<and> \<not> ok s) \<longrightarrow>
            (\<exists>k' s' b'. (\<forall>i < k'. retried_response (fetch pf i)) \<and> k' \<le> maxRetries cfg + 1
               \<and> (k' \<le> maxRetries cfg \<longrightarrow> fetch pf k' = Resolves s' b' \<and> 400 \<le> s' \<and> s' \<le> 499))"
    using non_2xx_failure_cases [of cfg pf] by blast
  from c1 c2 c3 c4 c5 c6 c7 c8 c9 c10 c11 c12 c13 c14 msg cover show ?thesis
    by (intro conjI)
qed

text \<open>
  A 503 and then a 404, with the default configuration: the 404 ends each call at the second
  attempt. And a server that answers 503 to every attempt: the retries are exhausted.
\<close>

theorem catalog_failure_is_wrapped_witness:
  "validateAndSanitizeQuery (scripted [Resolves 503 (Inr [])] (Resolves 404 (Inr ''{}''))) '' abc ''
     = Inr ''abc''
   \<and> fst (searchSongs DEFAULT_CONFIG (scripted [Resolves 503 (Inr [])] (Resolves 404 (Inr ''{}'')))
            0 new_service '' abc '' None None)
     = Inl (SaavnApiError ''Song search failed for query:  abc '' ''searchSongs''
              [(''query'', CStr '' abc ''), (''page'', CNum 0), (''limit'', CNum 10),
               (''error'', CStr ''HTTP 404: Request failed'')])
   \<and> fst (getSongs DEFAULT_CONFIG (scripted [Resolves 503 (Inr [])] (Resolves 404 (Inr ''{}'')))
            0 new_service [''a'', ''b''])
     = Inl (SaavnApiError ''Failed to fetch songs with IDs: a,b'' ''getSongs''
              [(''ids'', CList [''a'', ''b'']), (''error'', CStr ''HTTP 404: Request failed'')])
   \<and> fst (getPlaylist DEFAULT_CONFIG (scripted [Resolves 503 (Inr [])] (Resolves 404 (Inr ''{}'')))
            0 new_service [] (Some ''https://x'') None None)
     = Inl (SaavnApiError ''Failed to fetch playlist'' ''getPlaylist''
              [(''id'', CStr []), (''link'', CStr ''https://x''), (''page'', CNum 0),
               (''limit'', CNum 10), (''error'', CStr ''HTTP 404: Request failed'')])
   \<and> fst (getArtistById DEFAULT_CONFIG (scripted [] (Resolves 503 (Inr [])))
            0 new_service ''s1'' None None None None None)
     = Inl (SaavnApiError ''Failed to fetch artist with ID: s1'' ''getArtistById''
              [(''id'', CStr ''s1''), (''page'', CNum 0), (''songCount'', CNum 10),
               (''albumCount'', CNum 10), (''sortBy'', CStr ''popularity''),
               (''sortOrder'', CStr ''desc''),
               (''error'', CStr ''Failed to complete request after 4 attempts'')])"
proof -
  let ?P = "scripted [Resolves 503 (Inr [])] (Resolves 404 (Inr ''{}''))"
  let ?Q = "scripted [] (Resolves 503 (Inr []))"
  have p1: "\<forall>i < 1. retried_response (fetch ?P i)"
    by (simp add: scripted_def ok_def)
  have p2: "(1::nat) \<le> maxRetries DEFAULT_CONFIG + 1"
    by (simp add: DEFAULT_CONFIG_def)
  have p3: "1 \<le> maxRetries DEFAULT_CONFIG \<longrightarrow>
              fetch ?P 1 = Resolves 404 (Inr ''{}'') \<and> (400::nat) \<le> 404 \<and> (404::nat) \<le> 499"
    by (simp add: scripted_def)
  have p4: "''HTTP 404: Request failed'' =
              (if 1 \<le> maxRetries DEFAULT_CONFIG then ''HTTP '' @ show_nat 404 @ '': Request failed''
               else ''Failed to complete request after '' @ show_nat (maxRetries DEFAULT_CONFIG + 1)
                      @ '' attempts'')"
    by code_simp
  have v: "validateAndSanitizeQuery ?P '' abc '' = Inr ''abc''"
    by code_simp
  have i1: "[''a'', ''b''] \<noteq> ([] :: string list)" by simp
  have i2: "''s1'' \<noteq> []" by simp
  have i3: "([] :: string) \<noteq> [] \<or> truthy_str (Some ''https://x'')"
    by (simp add: truthy_str_def)
  have q1: "\<forall>i < 4. retried_response (fetch ?Q i)"
    by (simp add: scripted_def ok_def)
  have q2: "(4::nat) \<le> maxRetries DEFAULT_CONFIG + 1"
    by (simp add: DEFAULT_CONFIG_def)
  have q3: "4 \<le> maxRetries DEFAULT_CONFIG \<longrightarrow>
              fetch ?Q 4 = Resolves 503 (Inr []) \<and> (400::nat) \<le> 503 \<and> (503::nat) \<le> 499"
    by (simp add: DEFAULT_CONFIG_def)
  have q4: "''Failed to complete request after 4 attempts'' =
              (if 4 \<le> maxRetries DEFAULT_CONFIG then ''HTTP '' @ show_nat 503 @ '': Request failed''
               else ''Failed to complete request after '' @ show_nat (maxRetries DEFAULT_CONFIG + 1)
                      @ '' attempts'')"
    by code_simp
  have v': "validateAndSanitizeQuery ?Q '' abc '' = Inr ''abc''"
    by code_simp
  note first = catalog_failure_is_wrapped
                 [OF p1 p2 p3 p4 v i1 i2 i3, where now = 0 and svc = new_service
                    and page = None and limit = None and options = None
                    and songCount = None and albumCount = None
                    and sortBy = None and sortOrder = None]
  note second = catalog_failure_is_wrapped
                 [OF q1 q2 q3 q4 v' i1 i2 i3, where now = 0 and svc = new_service
                    and page = None and limit = None and options = None
                    and songCount = None and albumCount = None
                    and sortBy = None and sortOrder = None]
  from first second v show ?thesis
    by (elim conjE) (simp add: ctx_opt_str_def)
qed

end
